theory Spec2Isabelle
  imports Main "HOL-Library.Word" "HOL-Library.Sublist"
begin

section \<open>Files, paths and the host\<close>

text \<open>
  The two tools (\<^verbatim>\<open>tools/create_image.py\<close>, \<^verbatim>\<open>tools/create_iso.py\<close>) read two input
  files, write one output file and run external programs. The model makes that
  environment explicit:
  \<^item> a file system of regular files (path to contents) and directories; a path is
    the string the program uses, two different strings name two different nodes;
  \<^item> an optional limit on the size of a written file (the process's file-size limit):
    a write that would pass it stores the bytes that fit and raises \<open>OSError\<close>;
  \<^item> the buffer size of a file object opened for writing: it decides how much of what
    has been written is already in the file while the file object is still open;
  \<^item> the log of the child processes started through \<^verbatim>\<open>subprocess.run\<close>, each with the
    timeout it was given;
  \<^item> the host: what running a command line does (exit status and its effect on the
    files, failure to start, or never exiting).
  Console output (\<^verbatim>\<open>print\<close>) is left out: it changes neither files nor results.
\<close>

type_synonym byte = "8 word"
type_synonym path = string

datatype py_exc =
    FileNotFoundError
  | IsADirectoryError
  | NotADirectoryError
  | FileExistsError
  | SameFileError
  | OSError
  | TimeoutExpired

record world =
  files :: "path \<rightharpoonup> byte list"
  dirs :: "path set"
  fsize_limit :: "nat option"
  buffer_size :: nat
  procs :: "(string list \<times> nat option) list"

text \<open>The result of running a Python function: it returns, raises, or never comes back.\<close>

datatype 'a outcome = Returned 'a world | Raised py_exc world | Hangs

subsection \<open>Writing through a file object\<close>

text \<open>
  A file opened with mode \<^verbatim>\<open>'wb'\<close> starts empty and is only appended to, so the file
  object is the list of bytes written so far and \<^verbatim>\<open>f.tell()\<close> is its length. A failed
  write is \<open>Inl\<close> of the bytes that reached the file.
\<close>

definition f_write :: "nat option \<Rightarrow> byte list \<Rightarrow> byte list \<Rightarrow> byte list + byte list" where
  "f_write lim f data =
     (case lim of
        None \<Rightarrow> Inr (f @ data)
      | Some n \<Rightarrow> if length f + length data \<le> n then Inr (f @ data)
                  else Inl (take n (f @ data)))"

definition f_tell :: "byte list \<Rightarrow> nat" where
  "f_tell f = length f"

definition then_do :: "'e + 'a \<Rightarrow> ('a \<Rightarrow> 'e + 'b) \<Rightarrow> 'e + 'b" where
  "then_do r k = (case r of Inl e \<Rightarrow> Inl e | Inr x \<Rightarrow> k x)"

text \<open>
  The file object is buffered (\<^verbatim>\<open>io.BufferedWriter\<close>): until it is closed, only a prefix
  of what has been written is in the file. Of \<open>tot\<close> bytes written so far, \<open>fl\<close> are in
  the file and the rest is in the buffer of size \<open>B\<close>. A write of \<open>len\<close> bytes that fits
  into the free part of the buffer stays there; otherwise the buffer is written out
  first, and then the new bytes go straight to the file when they are more than a
  buffer, and into the buffer when they are not. The result is the number of bytes in
  the file afterwards.
\<close>

definition flushed_after :: "nat \<Rightarrow> nat \<Rightarrow> nat \<Rightarrow> nat \<Rightarrow> nat" where
  "flushed_after B fl tot len =
     (if len \<le> B - (tot - fl) then fl
      else if B < len then tot + len
      else tot)"

subsection \<open>Paths (\<^verbatim>\<open>os.path\<close>)\<close>

definition path_exists :: "world \<Rightarrow> path \<Rightarrow> bool" where
  "path_exists w p \<longleftrightarrow> files w p \<noteq> None \<or> p \<in> dirs w"

text \<open>\<^verbatim>\<open>os.path.join(a, b)\<close> of \<^verbatim>\<open>posixpath\<close>.\<close>

definition path_join :: "path \<Rightarrow> path \<Rightarrow> path" where
  "path_join a b =
     (if prefix ''/'' b then b
      else if a = [] \<or> last a = CHR ''/'' then a @ b
      else a @ ''/'' @ b)"

text \<open>
  \<^verbatim>\<open>os.path.dirname(p)\<close>: everything up to the last slash, with trailing slashes
  stripped unless the head consists of slashes only.
\<close>

definition dirname :: "path \<Rightarrow> path" where
  "dirname p =
     (let head = rev (dropWhile (\<lambda>c. c \<noteq> CHR ''/'') (rev p))
      in if head \<noteq> [] \<and> head \<noteq> replicate (length head) (CHR ''/'')
         then rev (dropWhile (\<lambda>c. c = CHR ''/'') (rev head)) else head)"

definition basename :: "path \<Rightarrow> path" where
  "basename p = rev (takeWhile (\<lambda>c. c \<noteq> CHR ''/'') (rev p))"

text \<open>The proper ancestors of a path: its prefixes that end before a slash.\<close>

definition ancestors :: "path \<Rightarrow> path list" where
  "ancestors p = [take i p. i \<leftarrow> [1..<length p], p ! i = CHR ''/'']"

text \<open>
  \<^verbatim>\<open>os.makedirs(p)\<close>: creates \<open>p\<close> and its missing ancestors; \<open>FileExistsError\<close> when
  \<open>p\<close> is there already, \<open>NotADirectoryError\<close> when an ancestor is a regular file.
\<close>

definition makedirs :: "world \<Rightarrow> path \<Rightarrow> py_exc + world" where
  "makedirs w p =
     (if path_exists w p then Inl FileExistsError
      else if \<exists>a \<in> set (ancestors p). files w a \<noteq> None then Inl NotADirectoryError
      else Inr (w\<lparr>dirs := dirs w \<union> set (ancestors p) \<union> {p}\<rparr>))"

subsection \<open>Opening and closing files\<close>

text \<open>
  Opening for reading gives the contents of a regular file. Otherwise it fails: on a
  directory, below a regular file (\<open>NotADirectoryError\<close>), or because nothing is there.
\<close>

definition open_rb :: "world \<Rightarrow> path \<Rightarrow> py_exc + byte list" where
  "open_rb w p =
     (case files w p of
        Some d \<Rightarrow> Inr d
      | None \<Rightarrow>
          if p \<in> dirs w then Inl IsADirectoryError
          else if \<exists>a \<in> set (ancestors p). files w a \<noteq> None then Inl NotADirectoryError
          else Inl FileNotFoundError)"

text \<open>
  Opening for writing creates or truncates the file. It fails on the empty path
  (\<open>FileNotFoundError\<close>), on a path that ends with a slash and on a directory
  (\<open>IsADirectoryError\<close>), and when the directory part of the path is not an existing
  directory (an empty directory part is the current directory): \<open>NotADirectoryError\<close>
  below a regular file, \<open>FileNotFoundError\<close> otherwise.
\<close>

definition open_wb :: "world \<Rightarrow> path \<Rightarrow> py_exc + world" where
  "open_wb w p =
     (if p = [] then Inl FileNotFoundError
      else if last p = CHR ''/'' \<or> p \<in> dirs w then Inl IsADirectoryError
      else if dirname p \<noteq> [] \<and> dirname p \<notin> dirs w
      then Inl (if \<exists>a \<in> set (ancestors p). files w a \<noteq> None then NotADirectoryError
                else FileNotFoundError)
      else Inr (w\<lparr>files := (files w)(p \<mapsto> [])\<rparr>))"

text \<open>Leaving the \<^verbatim>\<open>with\<close> block, normally or by an exception, leaves the written bytes.\<close>

definition file_close :: "world \<Rightarrow> path \<Rightarrow> byte list \<Rightarrow> world" where
  "file_close w p f = w\<lparr>files := (files w)(p \<mapsto> f)\<rparr>"

text \<open>
  \<^verbatim>\<open>shutil.copy2(src, dst)\<close>: into the directory when \<open>dst\<close> is one; \<open>SameFileError\<close>
  when both name the same file; then the source is opened, the destination is opened
  and the contents are written. File metadata is not modelled.
\<close>

definition copy2 :: "world \<Rightarrow> path \<Rightarrow> path \<Rightarrow> (py_exc \<times> world) + world" where
  "copy2 w src dst =
     (let dst = (if dst \<in> dirs w then path_join dst (basename src) else dst)
      in if src = dst \<and> path_exists w src then Inl (SameFileError, w)
         else case open_rb w src of
           Inl e \<Rightarrow> Inl (e, w)
         | Inr data \<Rightarrow>
             (case open_wb w dst of
                Inl e \<Rightarrow> Inl (e, w)
              | Inr w1 \<Rightarrow>
                  (case f_write (fsize_limit w1) [] data of
                     Inl part \<Rightarrow> Inl (OSError, file_close w1 dst part)
                   | Inr f \<Rightarrow> Inr (file_close w1 dst f))))"

subsection \<open>Temporary directories\<close>

text \<open>
  \<^verbatim>\<open>tempfile.TemporaryDirectory()\<close> makes a new directory under a name that is not in
  use; the name the library picks is a parameter of the model. Leaving the block
  removes the directory and everything below it.
\<close>

definition TemporaryDirectory :: "world \<Rightarrow> path \<Rightarrow> py_exc + world" where
  "TemporaryDirectory w tmp =
     (if path_exists w tmp then Inl FileExistsError
      else Inr (w\<lparr>dirs := insert tmp (dirs w)\<rparr>))"

definition below :: "path \<Rightarrow> path \<Rightarrow> bool" where
  "below tmp p \<longleftrightarrow> prefix (tmp @ ''/'') p"

definition rmtree :: "world \<Rightarrow> path \<Rightarrow> world" where
  "rmtree w tmp =
     w\<lparr>files := (\<lambda>p. if below tmp p then None else files w p),
       dirs := dirs w - {d. d = tmp \<or> below tmp d}\<rparr>"

subsection \<open>Child processes\<close>

text \<open>
  What running a command line does on this host: it exits with a status and leaves the
  files in some state, or the program cannot be started, or it never exits.
\<close>

datatype proc = Exited int "path \<rightharpoonup> byte list" | Launch_error | Never_exits

type_synonym host = "string list \<Rightarrow> (path \<rightharpoonup> byte list) \<Rightarrow> proc"

text \<open>
  \<^verbatim>\<open>subprocess.run(cmd, capture_output=True, text=True, timeout=t)\<close>, returning the
  exit status. The call blocks until the child exits; only a timeout ends the wait for
  a child that never exits.
\<close>

definition subprocess_run :: "host \<Rightarrow> string list \<Rightarrow> nat option \<Rightarrow> world \<Rightarrow> int outcome" where
  "subprocess_run h cmd timeout w =
     (let w1 = w\<lparr>procs := procs w @ [(cmd, timeout)]\<rparr>
      in case h cmd (files w1) of
           Exited rc fs \<Rightarrow> Returned rc (w1\<lparr>files := fs\<rparr>)
         | Launch_error \<Rightarrow> Raised FileNotFoundError w1
         | Never_exits \<Rightarrow> (case timeout of None \<Rightarrow> Hangs | Some t \<Rightarrow> Raised TimeoutExpired w1))"

section \<open>The raw image (\<^verbatim>\<open>create_image.py\<close>)\<close>

text \<open>
  The body of \<^verbatim>\<open>with open(output_path, 'wb') as f\<close> in \<^verbatim>\<open>create_arm64_image\<close>. It
  returns the file object together with the locals \<^verbatim>\<open>kernel_offset\<close> and
  \<^verbatim>\<open>final_size\<close>, which the source reads back with \<^verbatim>\<open>f.tell()\<close>.
\<close>

record raw_image =
  image :: "byte list"
  kernel_offset :: nat
  final_size :: nat

definition arm64_write :: "nat option \<Rightarrow> byte list \<Rightarrow> byte list \<Rightarrow> byte list + raw_image" where
  "arm64_write lim bootloader_data kernel_data =
     then_do (f_write lim [] bootloader_data) (\<lambda>f.
       let current_size = length bootloader_data;
           padding_needed = (1024 * 1024) - (current_size mod (1024 * 1024))
       in then_do (if padding_needed < 1024 * 1024
                   then f_write lim f (replicate padding_needed 0) else Inr f) (\<lambda>f.
       let kernel_offset = f_tell f
       in then_do (f_write lim f kernel_data) (\<lambda>f.
       let current_size = f_tell f;
           min_size = 16 * 1024 * 1024
       in then_do (if current_size < min_size
                   then f_write lim f (replicate (min_size - current_size) 0) else Inr f) (\<lambda>f.
       let final_size = f_tell f
       in Inr \<lparr>image = f, kernel_offset = kernel_offset, final_size = final_size\<rparr>))))"

text \<open>\<^verbatim>\<open>create_arm64_image(kernel_path, bootloader_path, output_path)\<close>.\<close>

definition create_arm64_image :: "world \<Rightarrow> path \<Rightarrow> path \<Rightarrow> path \<Rightarrow> bool outcome" where
  "create_arm64_image w kernel_path bootloader_path output_path =
     (case open_rb w kernel_path of
        Inl e \<Rightarrow> if e = FileNotFoundError then Returned False w else Raised e w
      | Inr kernel_data \<Rightarrow>
     (case open_rb w bootloader_path of
        Inl e \<Rightarrow> if e = FileNotFoundError then Returned False w else Raised e w
      | Inr bootloader_data \<Rightarrow>
     (case open_wb w output_path of
        Inl e \<Rightarrow> Returned False w
      | Inr w1 \<Rightarrow>
     (case arm64_write (fsize_limit w1) bootloader_data kernel_data of
        Inl part \<Rightarrow> Returned False (file_close w1 output_path part)
      | Inr r \<Rightarrow> Returned True (file_close w1 output_path (image r))))))"

definition create_x86_64_image :: "world \<Rightarrow> path \<Rightarrow> path \<Rightarrow> path \<Rightarrow> bool outcome" where
  "create_x86_64_image w kernel_path bootloader_path output_path =
     create_arm64_image w kernel_path bootloader_path output_path"

text \<open>The parsed command line; \<^verbatim>\<open>create_image.py\<close> adds \<^verbatim>\<open>--arch\<close>.\<close>

datatype arch = Arm64 | X86_64

record args =
  kernel :: path
  bootloader :: path
  "output" :: path
  verbose :: bool

record image_args = args +
  arch :: arch

text \<open>
  Both \<^verbatim>\<open>main\<close> functions create the directory of the output path when it is named
  and does not exist.
\<close>

definition prepare_output_dir :: "world \<Rightarrow> path \<Rightarrow> py_exc + world" where
  "prepare_output_dir w out =
     (let output_dir = dirname out
      in if output_dir \<noteq> [] \<and> \<not> path_exists w output_dir then makedirs w output_dir
         else Inr w)"

text \<open>
  \<^verbatim>\<open>main\<close> of \<^verbatim>\<open>create_image.py\<close> after argument parsing; the result is the exit status
  (an exception that nothing catches ends the process as \<open>Raised\<close>).
\<close>

definition create_image_main :: "image_args \<Rightarrow> world \<Rightarrow> int outcome" where
  "create_image_main a w =
     (if \<not> path_exists w (kernel a) then Returned 1 w
      else if \<not> path_exists w (bootloader a) then Returned 1 w
      else case prepare_output_dir w (output a) of
        Inl e \<Rightarrow> Raised e w
      | Inr w0 \<Rightarrow>
          (case (if arch a = Arm64
                 then create_arm64_image w0 (kernel a) (bootloader a) (output a)
                 else create_x86_64_image w0 (kernel a) (bootloader a) (output a)) of
             Returned success w1 \<Rightarrow> if success then Returned 0 w1 else Returned 1 w1
           | Raised e w1 \<Rightarrow> Raised e w1
           | Hangs \<Rightarrow> Hangs))"

section \<open>The ISO image (\<^verbatim>\<open>create_iso.py\<close>)\<close>

subsection \<open>Staging\<close>

definition join_lines :: "string list \<Rightarrow> string" where
  "join_lines ls = concat (map (\<lambda>l. l @ [CHR 0x0A]) ls)"

definition grub_cfg_text :: string where
  \<open>grub_cfg_text = join_lines
     [''set timeout=5'',
      ''set default=0'',
      [],
      ''menuentry "MiniOS" {'',
      ''    multiboot2 /boot/kernel.elf'',
      ''    boot'',
      ''}'',
      [],
      ''menuentry "MiniOS (Debug)" {'',
      ''    multiboot2 /boot/kernel.elf debug'',
      ''    boot'',
      ''}'']\<close>

definition encode :: "string \<Rightarrow> byte list" where
  "encode s = map of_char s"

text \<open>\<^verbatim>\<open>create_iso_structure(kernel_path, bootloader_path, temp_dir)\<close>; it catches nothing.\<close>

definition create_iso_structure :: "world \<Rightarrow> path \<Rightarrow> path \<Rightarrow> path \<Rightarrow> bool outcome" where
  "create_iso_structure w kernel_path bootloader_path temp_dir =
     (let boot_dir = path_join temp_dir ''boot''
      in case makedirs w boot_dir of
        Inl e \<Rightarrow> Raised e w
      | Inr w1 \<Rightarrow>
     (let kernel_dest = path_join boot_dir ''kernel.elf''
      in case copy2 w1 kernel_path kernel_dest of
        Inl (e, w2) \<Rightarrow> Raised e w2
      | Inr w2 \<Rightarrow>
     (let bootloader_dest = path_join boot_dir ''bootloader.bin''
      in case copy2 w2 bootloader_path bootloader_dest of
        Inl (e, w3) \<Rightarrow> Raised e w3
      | Inr w3 \<Rightarrow>
     (let grub_dir = path_join boot_dir ''grub''
      in case makedirs w3 grub_dir of
        Inl e \<Rightarrow> Raised e w3
      | Inr w4 \<Rightarrow>
     (let grub_cfg = path_join grub_dir ''grub.cfg''
      in case open_wb w4 grub_cfg of
        Inl e \<Rightarrow> Raised e w4
      | Inr w5 \<Rightarrow>
     (case f_write (fsize_limit w5) [] (encode grub_cfg_text) of
        Inl part \<Rightarrow> Raised OSError (file_close w5 grub_cfg part)
      | Inr f \<Rightarrow> Returned True (file_close w5 grub_cfg f)))))))"

subsection \<open>The three ways to build the image\<close>

text \<open>\<^verbatim>\<open>create_iso_with_grub(temp_dir, output_path)\<close>; \<^verbatim>\<open>except Exception\<close> gives \<open>False\<close>.\<close>

definition create_iso_with_grub :: "host \<Rightarrow> path \<Rightarrow> path \<Rightarrow> world \<Rightarrow> bool outcome" where
  "create_iso_with_grub h temp_dir output_path w =
     (case subprocess_run h [''which'', ''grub-mkrescue''] None w of
        Hangs \<Rightarrow> Hangs
      | Raised e w1 \<Rightarrow> Returned False w1
      | Returned returncode w1 \<Rightarrow>
          if returncode \<noteq> 0 then Returned False w1
          else
            (let cmd = [''grub-mkrescue'', ''-o'', output_path, temp_dir]
             in case subprocess_run h cmd None w1 of
                  Hangs \<Rightarrow> Hangs
                | Raised e w2 \<Rightarrow> Returned False w2
                | Returned returncode w2 \<Rightarrow>
                    if returncode = 0 then Returned True w2 else Returned False w2))"

text \<open>The command line that \<^verbatim>\<open>create_iso_with_mkisofs\<close> builds for \<open>cmd_name\<close>.\<close>

definition mkisofs_cmd :: "string \<Rightarrow> path \<Rightarrow> path \<Rightarrow> string list" where
  "mkisofs_cmd cmd_name output_path temp_dir =
     [cmd_name,
      ''-b'', ''boot/bootloader.bin'',
      ''-no-emul-boot'',
      ''-boot-load-size'', ''4'',
      ''-boot-info-table'',
      ''-o'', output_path,
      temp_dir]"

text \<open>
  The \<^verbatim>\<open>for cmd_name in [...]\<close> loop of \<^verbatim>\<open>create_iso_with_mkisofs\<close> over the names still
  to try, inside its \<^verbatim>\<open>try\<close>: an exception ends the function with \<open>False\<close>, a non-zero
  exit status goes on to the next name, and the end of the list is \<open>return False\<close>.
\<close>

fun mkisofs_loop :: "host \<Rightarrow> path \<Rightarrow> path \<Rightarrow> string list \<Rightarrow> world \<Rightarrow> bool outcome" where
  "mkisofs_loop h temp_dir output_path [] w = Returned False w"
| "mkisofs_loop h temp_dir output_path (cmd_name # rest) w =
     (case subprocess_run h [''which'', cmd_name] None w of
        Hangs \<Rightarrow> Hangs
      | Raised e w1 \<Rightarrow> Returned False w1
      | Returned returncode w1 \<Rightarrow>
          if returncode = 0 then
            (let cmd = mkisofs_cmd cmd_name output_path temp_dir
             in case subprocess_run h cmd None w1 of
                  Hangs \<Rightarrow> Hangs
                | Raised e w2 \<Rightarrow> Returned False w2
                | Returned returncode w2 \<Rightarrow>
                    if returncode = 0 then Returned True w2
                    else mkisofs_loop h temp_dir output_path rest w2)
          else mkisofs_loop h temp_dir output_path rest w1)"

definition create_iso_with_mkisofs :: "host \<Rightarrow> path \<Rightarrow> path \<Rightarrow> path \<Rightarrow> world \<Rightarrow> bool outcome" where
  "create_iso_with_mkisofs h temp_dir output_path bootloader_path w =
     mkisofs_loop h temp_dir output_path [''mkisofs'', ''genisoimage''] w"

text \<open>
  The body of \<^verbatim>\<open>with open(output_path, 'wb') as f\<close> in \<^verbatim>\<open>create_simple_iso\<close>, in the
  world \<open>w\<close> in which the output has just been opened. The two inputs are read inside
  the block: the bootloader before anything is written, the kernel after the bootloader
  and the padding have been written. At that moment the output file holds what the file
  object has passed on so far (\<open>flushed_after\<close>), which is what the kernel read sees when
  the kernel path is the output path. \<open>Inl\<close> is an exception, with the bytes written
  until then.
\<close>

definition simple_iso_write :: "world \<Rightarrow> path \<Rightarrow> path \<Rightarrow> path \<Rightarrow> byte list + byte list" where
  "simple_iso_write w output_path kernel_path bootloader_path =
     (let lim = fsize_limit w
      in case open_rb w bootloader_path of
        Inl e \<Rightarrow> Inl []
      | Inr bootloader_data \<Rightarrow>
          then_do (f_write lim [] bootloader_data) (\<lambda>f.
            let in_file = flushed_after (buffer_size w) 0 0 (length bootloader_data);
                current_pos = f_tell f;
                sector_size = 512;
                padding = sector_size - (current_pos mod sector_size)
            in then_do (if padding \<noteq> sector_size
                        then f_write lim f (replicate padding 0) else Inr f) (\<lambda>f.
            let in_file = (if padding \<noteq> sector_size
                           then flushed_after (buffer_size w) in_file current_pos padding
                           else in_file)
            in case open_rb (w\<lparr>files := (files w)(output_path \<mapsto> take in_file f)\<rparr>)
                      kernel_path of
              Inl e \<Rightarrow> Inl f
            | Inr kernel_data \<Rightarrow>
                then_do (f_write lim f kernel_data) (\<lambda>f.
                  let current_pos = f_tell f;
                      min_size = 2 * 1024 * 1024
                  in if current_pos < min_size
                     then f_write lim f (replicate (min_size - current_pos) 0) else Inr f))))"

text \<open>\<^verbatim>\<open>create_simple_iso(kernel_path, bootloader_path, output_path)\<close>.\<close>

definition create_simple_iso :: "world \<Rightarrow> path \<Rightarrow> path \<Rightarrow> path \<Rightarrow> bool outcome" where
  "create_simple_iso w kernel_path bootloader_path output_path =
     (case open_wb w output_path of
        Inl e \<Rightarrow> Returned False w
      | Inr w1 \<Rightarrow>
          (case simple_iso_write w1 output_path kernel_path bootloader_path of
             Inl part \<Rightarrow> Returned False (file_close w1 output_path part)
           | Inr f \<Rightarrow> Returned True (file_close w1 output_path f)))"

subsection \<open>\<^verbatim>\<open>main\<close> of \<^verbatim>\<open>create_iso.py\<close>\<close>

text \<open>
  The body of \<^verbatim>\<open>with tempfile.TemporaryDirectory() as temp_dir\<close>: the staging tree, then
  the three builders in turn. The result is the variable \<^verbatim>\<open>success\<close>.
\<close>

definition iso_build :: "host \<Rightarrow> args \<Rightarrow> path \<Rightarrow> world \<Rightarrow> bool outcome" where
  "iso_build h a temp_dir w =
     (case create_iso_structure w (kernel a) (bootloader a) temp_dir of
        Hangs \<Rightarrow> Hangs
      | Raised e w1 \<Rightarrow> Raised e w1
      | Returned staged w1 \<Rightarrow>
          if staged then
            (case create_iso_with_grub h temp_dir (output a) w1 of
               Hangs \<Rightarrow> Hangs
             | Raised e w2 \<Rightarrow> Raised e w2
             | Returned grub w2 \<Rightarrow>
                 if grub then Returned True w2
                 else
                   (case create_iso_with_mkisofs h temp_dir (output a) (bootloader a) w2 of
                      Hangs \<Rightarrow> Hangs
                    | Raised e w3 \<Rightarrow> Raised e w3
                    | Returned mkisofs w3 \<Rightarrow>
                        if mkisofs then Returned True w3
                        else create_simple_iso w3 (kernel a) (bootloader a) (output a)))
          else Returned False w1)"

text \<open>\<^verbatim>\<open>main\<close> after argument parsing; \<open>tmp\<close> is the name of the temporary directory.\<close>

definition create_iso_main :: "host \<Rightarrow> path \<Rightarrow> args \<Rightarrow> world \<Rightarrow> int outcome" where
  "create_iso_main h tmp a w =
     (if \<not> path_exists w (kernel a) then Returned 1 w
      else if \<not> path_exists w (bootloader a) then Returned 1 w
      else case prepare_output_dir w (output a) of
        Inl e \<Rightarrow> Raised e w
      | Inr w0 \<Rightarrow>
          (case TemporaryDirectory w0 tmp of
             Inl e \<Rightarrow> Raised e w0
           | Inr w1 \<Rightarrow>
               (case iso_build h a tmp w1 of
                  Hangs \<Rightarrow> Hangs
                | Raised e w2 \<Rightarrow> Raised e (rmtree w2 tmp)
                | Returned success w2 \<Rightarrow>
                    if success then Returned 0 (rmtree w2 tmp)
                    else Returned 1 (rmtree w2 tmp))))"

section \<open>The layout the spec describes\<close>

text \<open>The spec's rounding function: the smallest multiple of \<open>u\<close> that is at least \<open>n\<close>.\<close>

definition roundUpToMultiple :: "nat \<Rightarrow> nat \<Rightarrow> nat" where
  "roundUpToMultiple n u = ((n + u - 1) div u) * u"

definition MiB :: nat where
  "MiB = 1048576"

text \<open>
  The layout in the spec's words: the bootloader first, zero padding up to the next
  multiple of the alignment unit, the kernel, and zero fill up to the minimum size.
\<close>

definition assemble :: "nat \<Rightarrow> nat \<Rightarrow> byte list \<Rightarrow> byte list \<Rightarrow> byte list" where
  "assemble align min_size bl k =
     (let kernelOffset = roundUpToMultiple (length bl) align;
          total = max (kernelOffset + length k) min_size
      in bl @ replicate (kernelOffset - length bl) 0 @ k
            @ replicate (total - (kernelOffset + length k)) 0)"

text \<open>The total size as the spec computes it, rounded up to the alignment unit.\<close>

definition spec_totalSize :: "nat \<Rightarrow> nat \<Rightarrow> nat" where
  "spec_totalSize bootloaderSize kernelSize =
     max (roundUpToMultiple (roundUpToMultiple bootloaderSize MiB + kernelSize) MiB) (16 * MiB)"

text \<open>
  The shape that the two \<^verbatim>\<open>with\<close> blocks have in common, with the alignment unit and
  the minimum size as parameters.
\<close>

definition write_layout :: "nat option \<Rightarrow> nat \<Rightarrow> nat \<Rightarrow> byte list \<Rightarrow> byte list \<Rightarrow> byte list + raw_image" where
  "write_layout lim u m bl k =
     then_do (f_write lim [] bl) (\<lambda>f.
       then_do (if u - length bl mod u < u
                then f_write lim f (replicate (u - length bl mod u) 0) else Inr f) (\<lambda>f.
       let off = length f
       in then_do (f_write lim f k) (\<lambda>f.
       then_do (if length f < m
                then f_write lim f (replicate (m - length f) 0) else Inr f) (\<lambda>f.
       Inr \<lparr>image = f, kernel_offset = off, final_size = length f\<rparr>))))"






section \<open>Sample inputs\<close>

text \<open>
  A small file system on which the model is run: a kernel and a bootloader in the
  current directory, and the directory \<^verbatim>\<open>/tmp\<close>.
\<close>

definition demo_world :: world where
  "demo_world =
     \<lparr>files = [''kernel.elf'' \<mapsto> [0x7F, 0x45, 0x4C, 0x46], ''boot.bin'' \<mapsto> [0xEB, 0xFE]],
      dirs = {''/tmp''},
      fsize_limit = None,
      buffer_size = 8192,
      procs = []\<rparr>"

definition demo_image_args :: image_args where
  "demo_image_args =
     \<lparr>kernel = ''kernel.elf'', bootloader = ''boot.bin'', output = ''minios.img'',
      verbose = False, arch = Arm64\<rparr>"

text \<open>
  Two hosts. On the first, \<^verbatim>\<open>mkisofs\<close> and \<^verbatim>\<open>genisoimage\<close> are installed, \<^verbatim>\<open>mkisofs\<close>
  fails and \<^verbatim>\<open>genisoimage\<close> writes an image; \<^verbatim>\<open>grub-mkrescue\<close> is missing. On the second,
  \<^verbatim>\<open>grub-mkrescue\<close> is installed and never exits.
\<close>

definition retry_host :: host where
  "retry_host cmd fs =
     (case cmd of
        [] \<Rightarrow> Launch_error
      | prog # argv \<Rightarrow>
          if prog = ''which''
          then Exited (if argv = [''mkisofs''] \<or> argv = [''genisoimage''] then 0 else 1) fs
          else if prog = ''mkisofs'' then Exited 1 fs
          else if prog = ''genisoimage'' then Exited 0 (fs(''minios.iso'' \<mapsto> [0x43, 0x44]))
          else Launch_error)"

definition hung_host :: host where
  "hung_host cmd fs =
     (case cmd of
        [] \<Rightarrow> Launch_error
      | prog # argv \<Rightarrow>
          if prog = ''which'' then Exited (if argv = [''grub-mkrescue''] then 0 else 1) fs
          else if prog = ''grub-mkrescue'' then Never_exits
          else Launch_error)"

text \<open>A host on which every packaging tool is installed and exits with status 1.\<close>

definition failing_host :: host where
  "failing_host cmd fs =
     (case cmd of
        [] \<Rightarrow> Launch_error
      | prog # argv \<Rightarrow> if prog = ''which'' then Exited 0 fs else Exited 1 fs)"


definition demo_args :: args where
  "demo_args =
     \<lparr>kernel = ''kernel.elf'', bootloader = ''boot.bin'', output = ''minios.iso'',
      verbose = False\<rparr>"


definition bare_host :: host where
  "bare_host cmd fs =
     (case cmd of
        [] \<Rightarrow> Launch_error
      | prog # argv \<Rightarrow> if prog = ''which'' then Exited 1 fs else Launch_error)"

section \<open>Reading a result, and the worlds the theorems speak about\<close>

text \<open>The exit status of a run (an exception that nobody catches ends it with 1).\<close>

fun exit_status :: "int outcome \<Rightarrow> int option" where
  "exit_status (Returned rc w) = Some rc"
| "exit_status (Raised e w) = Some 1"
| "exit_status Hangs = None"

text \<open>The contents of a file when the run is over.\<close>

fun file_after :: "'a outcome \<Rightarrow> path \<Rightarrow> byte list option" where
  "file_after (Returned x w) p = files w p"
| "file_after (Raised e w) p = files w p"
| "file_after Hangs p = None"

text \<open>
  Whether some data fits under the file-size limit, and what reaches the file when all
  of it is written in order.
\<close>

definition fits :: "world \<Rightarrow> byte list \<Rightarrow> bool" where
  "fits w data = (case fsize_limit w of None \<Rightarrow> True | Some n \<Rightarrow> length data \<le> n)"

definition written :: "world \<Rightarrow> byte list \<Rightarrow> byte list" where
  "written w data = (if fits w data then data else take (the (fsize_limit w)) data)"

text \<open>
  A staging directory as \<^verbatim>\<open>tempfile\<close> hands it over: a directory with a proper name,
  no regular file among its ancestors, and nothing at or below any path that starts
  with its name.
\<close>

definition fresh_dir :: "world \<Rightarrow> path \<Rightarrow> bool" where
  "fresh_dir w tmp \<longleftrightarrow>
     tmp \<noteq> [] \<and> last tmp \<noteq> CHR ''/'' \<and> tmp \<in> dirs w \<and> files w tmp = None \<and>
     (\<forall>a \<in> set (ancestors tmp). files w a = None) \<and>
     (\<forall>p. prefix tmp p \<and> p \<noteq> tmp \<longrightarrow> \<not> path_exists w p)"

text \<open>
  A name that \<^verbatim>\<open>tempfile\<close> may pick: nothing exists under a path that starts with it, and
  its ancestors are directories.
\<close>

definition unused_name :: "world \<Rightarrow> path \<Rightarrow> bool" where
  "unused_name w tmp \<longleftrightarrow>
     tmp \<noteq> [] \<and> last tmp \<noteq> CHR ''/'' \<and>
     (\<forall>a \<in> set (ancestors tmp). files w a = None \<and> a \<in> dirs w) \<and>
     (\<forall>p. prefix tmp p \<longrightarrow> \<not> path_exists w p)"

text \<open>The world once the staging tree has been built in \<open>tmp\<close>.\<close>

definition staged :: "world \<Rightarrow> path \<Rightarrow> byte list \<Rightarrow> byte list \<Rightarrow> world" where
  "staged w tmp k b =
     w\<lparr>dirs := dirs w \<union> set (ancestors (tmp @ ''/boot'')) \<union> {tmp @ ''/boot''}
               \<union> set (ancestors (tmp @ ''/boot/grub'')) \<union> {tmp @ ''/boot/grub''},
       files := (files w)(tmp @ ''/boot/kernel.elf'' \<mapsto> k,
                          tmp @ ''/boot/bootloader.bin'' \<mapsto> b,
                          tmp @ ''/boot/grub/grub.cfg'' \<mapsto> encode grub_cfg_text)\<rparr>"

section \<open>The log of child processes\<close>

text \<open>
  The world after a list of commands has been run without a timeout, leaving the files
  \<open>fs\<close>; and the relation between two worlds when the log has only grown, by calls
  without a timeout.
\<close>

definition logged :: "world \<Rightarrow> string list list \<Rightarrow> (path \<rightharpoonup> byte list) \<Rightarrow> world" where
  "logged w cmds fs = w\<lparr>procs := procs w @ map (\<lambda>c. (c, None)) cmds, files := fs\<rparr>"

definition untimed :: "world \<Rightarrow> world \<Rightarrow> bool" where
  "untimed w w' \<longleftrightarrow> (\<exists>new. procs w' = procs w @ new \<and> (\<forall>e \<in> set new. snd e = None))"

section \<open>Rounding\<close>

lemma roundUp_cases:
  assumes u: "0 < u"
  shows "roundUpToMultiple n u = (if n mod u = 0 then n else n + (u - n mod u))"
proof -
  define q r where "q = n div u" and "r = n mod u"
  have n: "n = q * u + r" and r: "r < u" using u by (simp_all add: q_def r_def)
  show ?thesis
  proof (cases "r = 0")
    case True
    have "n + u - 1 = q * u + (u - 1)" using n True u by simp
    then have "(n + u - 1) div u = q + (u - 1) div u" using u by (simp only: div_mult_self3)
    then have "(n + u - 1) div u = q" using u by simp
    then show ?thesis using True n by (simp add: roundUpToMultiple_def r_def [symmetric])
  next
    case False
    have "n + u - 1 = (q + 1) * u + (r - 1)" using n False by (simp add: algebra_simps)
    then have "(n + u - 1) div u = (q + 1) + (r - 1) div u" using u by (simp only: div_mult_self3)
    then have "(n + u - 1) div u = q + 1" using r by simp
    then have "roundUpToMultiple n u = q * u + u" by (simp add: roundUpToMultiple_def)
    then show ?thesis using False n r by (simp add: r_def [symmetric])
  qed
qed

lemma roundUp_dvd: "u dvd roundUpToMultiple n u"
  by (simp add: roundUpToMultiple_def)

lemma roundUp_ge: "0 < u \<Longrightarrow> n \<le> roundUpToMultiple n u"
  unfolding roundUp_cases
  by (cases "n mod u = 0") (simp_all only: if_True if_False if_P if_not_P le_add1 order_refl)

lemma roundUp_least:
  assumes u: "0 < u" and m: "u dvd m" "n \<le> m"
  shows "roundUpToMultiple n u \<le> m"
proof -
  obtain c where c: "m = u * c" using m(1) by (auto simp: dvd_def)
  have "n + u - 1 < u * c + u" using m(2) c u by simp
  then have "(n + u - 1) div u < c + 1" using u
    by (metis add.commute div_mult_self2 less_mult_imp_div_less mult.commute mult_Suc_right Suc_eq_plus1 less_numeral_extra(3))
  then have "(n + u - 1) div u \<le> c" by simp
  then show ?thesis using c by (simp add: roundUpToMultiple_def mult.commute)
qed

lemma roundUp_fixed: "0 < u \<Longrightarrow> u dvd n \<Longrightarrow> roundUpToMultiple n u = n"
  by (simp add: roundUp_cases)

section \<open>The two writers follow the common layout\<close>

lemma then_do_f_write:
  "then_do (f_write lim f a) K =
     (case lim of None \<Rightarrow> K (f @ a)
      | Some n \<Rightarrow> if length f + length a \<le> n then K (f @ a) else Inl (take n (f @ a)))"
  by (simp add: then_do_def f_write_def split: option.splits)

lemma then_do_Inr: "then_do (Inr x) K = K x"
  by (simp add: then_do_def)

lemma then_do_Inl: "then_do (Inl x) K = Inl x"
  by (simp add: then_do_def)

lemma arm64_write_layout: "arm64_write lim bl k = write_layout lim MiB (16 * MiB) bl k"
  by (simp add: arm64_write_def write_layout_def Let_def f_tell_def MiB_def)

lemma neq_iff_less: "(u - r \<noteq> u) = (u - r < (u::nat))"
  by arith

lemma write_layout_pad:
  assumes u: "0 < u"
  shows "write_layout lim u m bl k =
     then_do (f_write lim [] bl) (\<lambda>f.
       then_do (if roundUpToMultiple (length bl) u - length bl \<noteq> 0
                then f_write lim f (replicate (roundUpToMultiple (length bl) u - length bl) 0)
                else Inr f) (\<lambda>f.
       let off = length f
       in then_do (f_write lim f k) (\<lambda>f.
       then_do (if length f < m
                then f_write lim f (replicate (m - length f) 0) else Inr f) (\<lambda>f.
       Inr \<lparr>image = f, kernel_offset = off, final_size = length f\<rparr>))))"
proof -
  define r where "r = length bl mod u"
  have r: "r < u" using u by (simp add: r_def)
  have off: "roundUpToMultiple (length bl) u = (if r = 0 then length bl else length bl + (u - r))"
    using u by (simp add: roundUp_cases r_def)
  show ?thesis
    using r unfolding write_layout_def off r_def [symmetric]
    by (cases "r = 0") simp_all
qed

lemma write_layout_None:
  assumes u: "0 < u"
  shows "write_layout None u m bl k =
     Inr \<lparr>image = assemble u m bl k,
          kernel_offset = roundUpToMultiple (length bl) u,
          final_size = length (assemble u m bl k)\<rparr>"
proof -
  define pad where "pad = roundUpToMultiple (length bl) u - length bl"
  have off: "roundUpToMultiple (length bl) u = length bl + pad"
    using roundUp_ge [OF u, of "length bl"] by (simp add: pad_def)
  show ?thesis
    unfolding write_layout_pad [OF u] assemble_def Let_def pad_def [symmetric] off
    by (auto simp add: max_def then_do_f_write then_do_Inr)
qed

lemma write_layout_Some:
  assumes u: "0 < u"
  shows "write_layout (Some n) u m bl k =
     (if length (assemble u m bl k) \<le> n
      then Inr \<lparr>image = assemble u m bl k,
          kernel_offset = roundUpToMultiple (length bl) u,
          final_size = length (assemble u m bl k)\<rparr>
      else Inl (take n (assemble u m bl k)))"
proof -
  define pad where "pad = roundUpToMultiple (length bl) u - length bl"
  have off: "roundUpToMultiple (length bl) u = length bl + pad"
    using roundUp_ge [OF u, of "length bl"] by (simp add: pad_def)
  show ?thesis
    unfolding write_layout_pad [OF u] assemble_def Let_def pad_def [symmetric] off
    by (auto simp add: max_def then_do_f_write then_do_Inr)
qed

lemma write_layout_assemble:
  assumes u: "0 < u"
  shows "write_layout lim u m bl k =
     then_do (f_write lim [] (assemble u m bl k)) (\<lambda>f.
       Inr \<lparr>image = f, kernel_offset = roundUpToMultiple (length bl) u, final_size = length f\<rparr>)"
  by (cases lim)
    (simp_all add: write_layout_None [OF u] write_layout_Some [OF u] then_do_f_write)

lemma length_assemble:
  "0 < u \<Longrightarrow> length (assemble u m bl k) = max (roundUpToMultiple (length bl) u + length k) m"
  using roundUp_ge [of u "length bl"] by (simp add: assemble_def Let_def max_def)

lemma write_layout_Inr:
  assumes u: "0 < u" and r: "write_layout lim u m bl k = Inr r"
  shows "image r = assemble u m bl k"
    and "kernel_offset r = roundUpToMultiple (length bl) u"
    and "final_size r = length (assemble u m bl k)"
  using r unfolding write_layout_assemble [OF u] then_do_f_write
  by (auto split: option.splits if_splits)

lemma MiB_pos: "0 < MiB"
  by (simp add: MiB_def)

lemma simple_iso_write_layout:
  assumes "files w bootloader_path = Some bl" and "files w kernel_path = Some k"
    and "kernel_path \<noteq> output_path"
  shows "simple_iso_write w output_path kernel_path bootloader_path =
           then_do (write_layout (fsize_limit w) 512 (2 * MiB) bl k) (\<lambda>r. Inr (image r))"
proof -
  define u where "u = (512::nat)"
  define m where "m = (2 * 1024 * 1024 :: nat)"
  have m2: "2 * MiB = m" by (simp add: m_def MiB_def)
  show ?thesis
    unfolding simple_iso_write_def write_layout_def m2 Let_def f_tell_def
      u_def [symmetric] m_def [symmetric]
    using assms
    by (cases "fsize_limit w")
      (simp_all add: open_rb_def neq_iff_less then_do_f_write then_do_Inr then_do_Inl f_write_def)
qed

lemma arm64_write_Inr:
  assumes "arm64_write lim bl k = Inr r"
  shows "image r = assemble MiB (16 * MiB) bl k"
    and "kernel_offset r = roundUpToMultiple (length bl) MiB"
    and "final_size r = length (assemble MiB (16 * MiB) bl k)"
  using write_layout_Inr [OF MiB_pos assms [unfolded arm64_write_layout]] by simp_all

lemma arm64_write_total:
  "\<exists>r. arm64_write None bl k = Inr r"
  by (simp add: arm64_write_layout write_layout_None [OF MiB_pos])

section \<open>The raw image: kernel offset\<close>

text \<open>
  Claim C2. For every bootloader, the kernel offset that \<^verbatim>\<open>create_arm64_image\<close> reaches
  is \<open>roundUpToMultiple\<close> of the bootloader size and 1 MiB: a multiple of 1 MiB, at least
  the bootloader size, and the least such number; the bytes between the bootloader and
  the kernel offset are zero. When the bootloader size is already a multiple of 1 MiB
  (1,048,576 bytes, say), no padding is written: the offset is the bootloader size and
  the kernel follows the bootloader directly. Without a file-size limit the writer always
  gets there.
\<close>

theorem kernel_offset_round_up:
  "(\<exists>r. arm64_write None bl k = Inr r) \<and>
   (\<forall>r. arm64_write lim bl k = Inr r \<longrightarrow>
      kernel_offset r = roundUpToMultiple (length bl) MiB \<and>
      MiB dvd kernel_offset r \<and> length bl \<le> kernel_offset r \<and>
      (\<forall>m. MiB dvd m \<and> length bl \<le> m \<longrightarrow> kernel_offset r \<le> m) \<and>
      take (kernel_offset r) (image r) = bl @ replicate (kernel_offset r - length bl) 0 \<and>
      (length bl mod MiB = 0 \<longrightarrow>
         kernel_offset r = length bl \<and> take (length bl + length k) (image r) = bl @ k))"
proof (intro conjI allI impI)
  show "\<exists>r. arm64_write None bl k = Inr r" by (rule arm64_write_total)
next
  fix r assume r: "arm64_write lim bl k = Inr r"
  note eqs = arm64_write_Inr [OF r]
  show off: "kernel_offset r = roundUpToMultiple (length bl) MiB" by (rule eqs)
  show "MiB dvd kernel_offset r" by (simp add: off roundUp_dvd)
  show ge: "length bl \<le> kernel_offset r" by (simp add: off roundUp_ge MiB_pos)
  show "take (kernel_offset r) (image r) = bl @ replicate (kernel_offset r - length bl) 0"
    using ge by (simp add: eqs(1) assemble_def Let_def off [symmetric])
  { fix m assume "MiB dvd m \<and> length bl \<le> m"
    then show "kernel_offset r \<le> m" by (simp add: off roundUp_least MiB_pos) }
  { assume z: "length bl mod MiB = 0"
    then show o2: "kernel_offset r = length bl" by (simp add: off roundUp_cases MiB_pos)
    show "take (length bl + length k) (image r) = bl @ k"
      using o2 by (simp add: eqs(1) assemble_def Let_def off [symmetric]) }
qed

theorem kernel_offset_round_up_witness:
  "\<exists>r. arm64_write None (replicate 1048576 1) [7, 8, 9] = Inr r \<and> kernel_offset r = 1048576 \<and>
       take 1048579 (image r) = replicate 1048576 1 @ [7, 8, 9]"
proof -
  define bl :: "byte list" where "bl = replicate 1048576 1"
  define k :: "byte list" where "k = [7, 8, 9]"
  have len: "length bl = 1048576" "length k = 3" by (simp_all add: bl_def k_def)
  note t = kernel_offset_round_up [of bl k None]
  from t obtain r where r: "arm64_write None bl k = Inr r" by (elim conjE exE)
  have z: "length bl mod MiB = 0" by (simp add: len MiB_def)
  from t r z have "kernel_offset r = length bl \<and> take (length bl + length k) (image r) = bl @ k"
    by (elim conjE allE [of _ r] impE) (assumption+, simp)
  then have "kernel_offset r = 1048576 \<and> take 1048579 (image r) = bl @ k"
    by (simp add: len)
  with r show ?thesis unfolding bl_def k_def by (intro exI [of _ r] conjI) simp_all
qed

lemma assemble_struct:
  assumes u: "0 < u"
  shows "assemble u m bl k =
     bl @ replicate (roundUpToMultiple (length bl) u - length bl) 0 @ k @
       replicate (max (roundUpToMultiple (length bl) u + length k) m
                    - (roundUpToMultiple (length bl) u + length k)) 0"
  by (simp add: assemble_def Let_def)

lemma layout_nth:
  fixes img :: "byte list"
  assumes img: "img = bl @ replicate p 0 @ k @ replicate q 0"
  shows "i < length bl \<Longrightarrow> img ! i = bl ! i"
    and "i < length k \<Longrightarrow> img ! (length bl + p + i) = k ! i"
    and "i < length img \<Longrightarrow> \<not> i < length bl \<Longrightarrow>
           \<not> (length bl + p \<le> i \<and> i < length bl + p + length k) \<Longrightarrow> img ! i = 0"
  unfolding img by (auto simp add: nth_append)

lemma create_arm64_image_ok:
  assumes "files w kernel_path = Some k" and "files w bootloader_path = Some bl"
    and "open_wb w output_path = Inr w1" and "arm64_write (fsize_limit w) bl k = Inr r"
  shows "create_arm64_image w kernel_path bootloader_path output_path =
           Returned True (file_close w1 output_path (image r))"
proof -
  have "fsize_limit w1 = fsize_limit w"
    using assms(3) by (auto simp add: open_wb_def split: if_splits)
  then show ?thesis using assms by (simp add: create_arm64_image_def open_rb_def)
qed

lemma arm64_final_size_spec:
  assumes r: "arm64_write lim bl k = Inr r"
    and c: "kernel_offset r + length k \<le> 16 * MiB \<or> MiB dvd length k"
  shows "final_size r = spec_totalSize (length bl) (length k)"
proof -
  note eqs = arm64_write_Inr [OF r]
  have fs: "final_size r = max (kernel_offset r + length k) (16 * MiB)"
    by (simp add: eqs length_assemble MiB_pos)
  have d: "MiB dvd kernel_offset r" by (simp add: eqs roundUp_dvd)
  have "roundUpToMultiple (kernel_offset r + length k) MiB \<le> 16 * MiB \<and>
          final_size r = 16 * MiB
        \<or> roundUpToMultiple (kernel_offset r + length k) MiB = kernel_offset r + length k"
    using c
  proof
    assume le: "kernel_offset r + length k \<le> 16 * MiB"
    have "roundUpToMultiple (kernel_offset r + length k) MiB \<le> 16 * MiB"
      by (rule roundUp_least [OF MiB_pos _ le]) simp
    then show ?thesis using le by (simp add: fs max_def)
  next
    assume "MiB dvd length k"
    then have "MiB dvd kernel_offset r + length k" using d by simp
    then show ?thesis by (simp add: roundUp_fixed MiB_pos)
  qed
  then show ?thesis
    unfolding spec_totalSize_def eqs(2) [symmetric] by (auto simp add: fs max_def)
qed

lemma open_wb_Inr:
  "open_wb w p = Inr w1 \<Longrightarrow> w1 = w\<lparr>files := (files w)(p \<mapsto> [])\<rparr>"
  by (auto simp add: open_wb_def split: if_splits)

section \<open>The raw image: contents\<close>

text \<open>
  Claim C1, as stated: for every bootloader and kernel the image has the bootloader at
  \<open>[0, bootloaderSize)\<close>, the kernel at \<open>[kernelOffset, kernelOffset + kernelSize)\<close>, zero
  elsewhere, and its length is exactly the spec's \<open>totalSize\<close>, which rounds the end of
  the kernel up to 1 MiB. The length fails for a bootloader of 2 bytes and a kernel of
  15,728,641 bytes (15 MiB + 1): the kernel starts at 1,048,576 and the image ends with
  the kernel, 16,777,217 bytes long, where \<open>totalSize\<close> is 17,825,792.
\<close>

theorem raw_image_length_counterexample:
  "arm64_write None [0xEB, 0xFE] (replicate 15728641 1) =
     Inr \<lparr>image = [0xEB, 0xFE] @ replicate 1048574 0 @ replicate 15728641 1,
          kernel_offset = 1048576, final_size = 16777217\<rparr> \<and>
   length ([0xEB, 0xFE] @ replicate 1048574 0 @ replicate 15728641 (1 :: byte)) = 16777217 \<and>
   spec_totalSize (length [0xEB, 0xFE :: byte]) (length (replicate 15728641 (1 :: byte))) =
     17825792"
proof -
  define k :: "byte list" where "k = replicate 15728641 1"
  define bl :: "byte list" where "bl = [0xEB, 0xFE]"
  define z :: "byte list" where "z = replicate 1048574 0"
  have len: "length k = 15728641" "length bl = 2" "length z = 1048574"
    by (simp_all add: k_def bl_def z_def)
  have r0: "roundUpToMultiple 2 MiB = 1048576" by (simp add: roundUpToMultiple_def MiB_def)
  have "assemble MiB (16 * MiB) bl k = bl @ z @ k"
    by (simp add: assemble_def Let_def r0 len) (simp add: MiB_def z_def)
  moreover have "length (bl @ z @ k) = 16777217" by (simp add: len)
  ultimately have "arm64_write None bl k =
      Inr \<lparr>image = bl @ z @ k, kernel_offset = 1048576, final_size = 16777217\<rparr>"
    by (simp add: arm64_write_layout write_layout_None [OF MiB_pos] r0 len)
  moreover have "spec_totalSize (length bl) (length k) = 17825792"
    by (simp add: spec_totalSize_def r0 len) (simp add: roundUpToMultiple_def MiB_def)
  moreover have "length (bl @ z @ k) = 16777217" by (simp add: len)
  ultimately show ?thesis unfolding k_def bl_def z_def by simp
qed

text \<open>
  Claim C1, amended. For every bootloader and kernel, the image that
  \<^verbatim>\<open>create_arm64_image\<close> writes has the bootloader at offsets \<open>[0, bootloaderSize)\<close>, the
  kernel at \<open>[kernelOffset, kernelOffset + kernelSize)\<close>, where \<open>kernelOffset\<close> is the
  bootloader size rounded up to 1 MiB, and zero in every other byte; its length is
  exactly the larger of \<open>kernelOffset + kernelSize\<close> and 16 MiB, which is the spec's
  \<open>totalSize\<close> whenever the kernel ends within the first 16 MiB or the kernel size is a
  multiple of 1 MiB. With a bootloader of 512 bytes and a kernel of 2,097,152 bytes the
  kernel offset is 1,048,576, the image is 16,777,216 bytes long and consists of the
  bootloader, 1,048,064 zero bytes, the kernel (bytes 1,048,576 to 3,145,727) and zero
  bytes to the end. When both inputs are there, the output can be opened and no size
  limit applies, \<^verbatim>\<open>create_arm64_image\<close> returns \<open>True\<close>, the output file holds exactly
  that image, and every other file is as it was.
\<close>

theorem raw_image_layout:
  "(files w kernel_path = Some k \<and> files w bootloader_path = Some bl \<and>
    open_wb w output_path = Inr w1 \<and> fsize_limit w = None \<longrightarrow>
      (\<exists>(r :: raw_image) w'. arm64_write None bl k = Inr r \<and>
           create_arm64_image w kernel_path bootloader_path output_path = Returned True w' \<and>
           files w' output_path = Some (image r) \<and>
           (\<forall>p. p \<noteq> output_path \<longrightarrow> files w' p = files w p) \<and> dirs w' = dirs w)) \<and>
   (\<forall>(r :: raw_image). arm64_write lim bl k = Inr r \<longrightarrow>
      (kernel_offset r = roundUpToMultiple (length bl) MiB \<and>
       length (image r) = max (kernel_offset r + length k) (16 * MiB) \<and>
       final_size r = length (image r)) \<and>
      (\<forall>i < length bl. image r ! i = bl ! i) \<and>
      (\<forall>i < length k. image r ! (kernel_offset r + i) = k ! i) \<and>
      (\<forall>i < length (image r).
         \<not> i < length bl \<and> \<not> (kernel_offset r \<le> i \<and> i < kernel_offset r + length k) \<longrightarrow>
           image r ! i = 0) \<and>
      (length bl = 512 \<and> length k = 2097152 \<longrightarrow>
         kernel_offset r = 1048576 \<and> length (image r) = 16777216 \<and>
         image r = bl @ replicate 1048064 0 @ k @ replicate 13631488 0) \<and>
      (kernel_offset r + length k \<le> 16 * MiB \<or> MiB dvd length k \<longrightarrow>
         length (image r) = spec_totalSize (length bl) (length k)))"
proof (intro conjI allI impI)
  assume a: "files w kernel_path = Some k \<and> files w bootloader_path = Some bl \<and>
    open_wb w output_path = Inr w1 \<and> fsize_limit w = None"
  obtain r where r: "arm64_write None bl k = Inr r" using arm64_write_total by blast
  define w' where "w' = file_close w1 output_path (image r)"
  from a r have c: "create_arm64_image w kernel_path bootloader_path output_path =
      Returned True w'"
    unfolding w'_def by (intro create_arm64_image_ok) simp_all
  from a have w1: "w1 = w\<lparr>files := (files w)(output_path \<mapsto> [])\<rparr>"
    by (intro open_wb_Inr) simp
  have "files w' output_path = Some (image r)" by (simp add: w'_def file_close_def)
  moreover have "\<forall>p. p \<noteq> output_path \<longrightarrow> files w' p = files w p"
    by (simp add: w'_def file_close_def w1)
  moreover have "dirs w' = dirs w" by (simp add: w'_def file_close_def w1)
  ultimately show "\<exists>(r :: raw_image) w'. arm64_write None bl k = Inr r \<and>
      create_arm64_image w kernel_path bootloader_path output_path = Returned True w' \<and>
      files w' output_path = Some (image r) \<and>
      (\<forall>p. p \<noteq> output_path \<longrightarrow> files w' p = files w p) \<and> dirs w' = dirs w"
    using r c by blast
next
  fix r :: raw_image assume r: "arm64_write lim bl k = Inr r"
  note eqs = arm64_write_Inr [OF r]
  define p where "p = kernel_offset r - length bl"
  define q where "q = max (kernel_offset r + length k) (16 * MiB) - (kernel_offset r + length k)"
  have off: "kernel_offset r = length bl + p"
    using roundUp_ge [OF MiB_pos, of "length bl"] by (simp add: p_def eqs(2))
  have img: "image r = bl @ replicate p 0 @ k @ replicate q 0"
    by (simp add: eqs(1) assemble_struct [OF MiB_pos] p_def q_def eqs(2))
  show "kernel_offset r = roundUpToMultiple (length bl) MiB" by (rule eqs(2))
  show ln: "length (image r) = max (kernel_offset r + length k) (16 * MiB)"
    by (simp add: eqs length_assemble MiB_pos)
  show fs: "final_size r = length (image r)" by (simp add: eqs)
  { fix i assume "i < length bl"
    then show "image r ! i = bl ! i" by (rule layout_nth(1) [OF img]) }
  { fix i assume "i < length k"
    then show "image r ! (kernel_offset r + i) = k ! i"
      unfolding off by (rule layout_nth(2) [OF img]) }
  { fix i assume "i < length (image r)"
      and "\<not> i < length bl \<and> \<not> (kernel_offset r \<le> i \<and> i < kernel_offset r + length k)"
    then show "image r ! i = 0"
      unfolding off by (intro layout_nth(3) [OF img]) simp_all }
  { assume s: "length bl = 512 \<and> length k = 2097152"
    then have o: "roundUpToMultiple (length bl) MiB = 1048576"
      by (simp add: roundUpToMultiple_def MiB_def)
    show k1: "kernel_offset r = 1048576" by (simp add: eqs(2) o)
    show "length (image r) = 16777216" unfolding ln using k1 s by (simp add: MiB_def)
    have "p = 1048064" using s k1 by (simp add: p_def)
    moreover have "q = 13631488" using s k1 by (simp add: q_def MiB_def)
    ultimately show "image r = bl @ replicate 1048064 0 @ k @ replicate 13631488 0"
      using img by simp }
  { assume c: "kernel_offset r + length k \<le> 16 * MiB \<or> MiB dvd length k"
    show "length (image r) = spec_totalSize (length bl) (length k)"
      unfolding fs [symmetric] by (rule arm64_final_size_spec [OF r c]) }
qed

theorem raw_image_layout_witness:
  "\<exists>(r :: raw_image) w'.
     create_arm64_image demo_world ''kernel.elf'' ''boot.bin'' ''minios.img'' =
       Returned True w' \<and>
     files w' ''minios.img'' = Some (image r) \<and>
     files w' ''kernel.elf'' = Some [0x7F, 0x45, 0x4C, 0x46] \<and>
     kernel_offset r = 1048576 \<and> length (image r) = 16777216 \<and>
     length (image r) = spec_totalSize 2 4 \<and>
     image r ! 1 = 0xFE \<and> image r ! (kernel_offset r + 1) = 0x45 \<and> image r ! 2 = 0"
proof -
  define k :: "byte list" where "k = [0x7F, 0x45, 0x4C, 0x46]"
  define bl :: "byte list" where "bl = [0xEB, 0xFE]"
  define w1 where "w1 = demo_world\<lparr>files := (files demo_world)(''minios.img'' \<mapsto> [])\<rparr>"
  have o: "open_wb demo_world ''minios.img'' = Inr w1"
    by (simp add: open_wb_def demo_world_def dirname_def w1_def)
  have h: "files demo_world ''kernel.elf'' = Some k \<and> files demo_world ''boot.bin'' = Some bl \<and>
    open_wb demo_world ''minios.img'' = Inr w1 \<and> fsize_limit demo_world = None"
    using o by (simp add: demo_world_def k_def bl_def)
  note t = raw_image_layout [of demo_world "''kernel.elf''" k "''boot.bin''" bl "''minios.img''" w1 None]
  from conjunct1 [OF t, rule_format, OF h] obtain r :: raw_image and w' where
    r: "arm64_write None bl k = Inr r"
    and c: "create_arm64_image demo_world ''kernel.elf'' ''boot.bin'' ''minios.img'' =
       Returned True w'"
    and f: "files w' ''minios.img'' = Some (image r)"
    and u: "\<forall>p. p \<noteq> ''minios.img'' \<longrightarrow> files w' p = files demo_world p"
    by (elim conjE exE)
  note b = conjunct2 [OF t, rule_format, OF r]
  note b1 = b [THEN conjunct1]
  note b2 = b [THEN conjunct2, THEN conjunct1, rule_format]
  note b3 = b [THEN conjunct2, THEN conjunct2, THEN conjunct1, rule_format]
  note b4 = b [THEN conjunct2, THEN conjunct2, THEN conjunct2, THEN conjunct1, rule_format]
  note b6 = b [THEN conjunct2, THEN conjunct2, THEN conjunct2, THEN conjunct2, THEN conjunct2,
      rule_format]
  have off: "kernel_offset r = 1048576"
    using b1 by (simp add: bl_def roundUpToMultiple_def MiB_def)
  have ln: "length (image r) = 16777216" using b1 off by (simp add: k_def MiB_def)
  have lens: "length bl = 2" "length k = 4" by (simp_all add: bl_def k_def)
  have "length (image r) = spec_totalSize (length bl) (length k)"
    by (rule b6) (simp add: off k_def MiB_def)
  then have sp: "length (image r) = spec_totalSize 2 4" unfolding lens .
  have kf: "files w' ''kernel.elf'' = Some k"
    using u [rule_format, of "''kernel.elf''"] by (simp add: demo_world_def k_def)
  have "image r ! 1 = bl ! 1" by (rule b2) (simp add: bl_def)
  moreover have "image r ! (kernel_offset r + 1) = k ! 1" by (rule b3) (simp add: k_def)
  moreover have "2 < length (image r)" by (simp add: ln)
  then have "image r ! 2 = 0" using off by (intro b4) (simp_all add: bl_def)
  ultimately have "create_arm64_image demo_world ''kernel.elf'' ''boot.bin'' ''minios.img'' =
       Returned True w' \<and>
     files w' ''minios.img'' = Some (image r) \<and>
     files w' ''kernel.elf'' = Some [0x7F, 0x45, 0x4C, 0x46] \<and>
     kernel_offset r = 1048576 \<and> length (image r) = 16777216 \<and>
     length (image r) = spec_totalSize 2 4 \<and>
     image r ! 1 = 0xFE \<and> image r ! (kernel_offset r + 1) = 0x45 \<and> image r ! 2 = 0"
    using c f kf off ln sp [unfolded ln] by (simp add: bl_def k_def)
  then show ?thesis by blast
qed

section \<open>The raw image: total size\<close>

text \<open>
  Claim C3, as stated: the total size is the maximum of 16 MiB and the end of the kernel
  rounded up to 1 MiB, hence a multiple of 1 MiB. It fails for an empty bootloader and a
  kernel of 16 MiB + 1 bytes: the image is 16,777,217 bytes long, where the spec's formula
  gives 17,825,792, and 16,777,217 is not a multiple of 1 MiB.
\<close>

theorem total_size_counterexample:
  "arm64_write None [] (replicate 16777217 0) =
     Inr \<lparr>image = replicate 16777217 0, kernel_offset = 0, final_size = 16777217\<rparr> \<and>
   spec_totalSize (length ([] :: byte list)) (length (replicate 16777217 (0 :: byte))) = 17825792 \<and>
   (16777217 :: nat) mod MiB = 1"
proof -
  define k :: "byte list" where "k = replicate 16777217 0"
  have len: "length k = 16777217" by (simp add: k_def)
  have r0: "roundUpToMultiple 0 MiB = 0" by (simp add: roundUpToMultiple_def MiB_def)
  have "assemble MiB (16 * MiB) [] k = k"
    by (simp add: assemble_def Let_def r0 len) (simp add: MiB_def)
  then have "arm64_write None [] k =
      Inr \<lparr>image = k, kernel_offset = 0, final_size = 16777217\<rparr>"
    by (simp add: arm64_write_layout write_layout_None [OF MiB_pos] r0 len)
  moreover have "spec_totalSize (length ([] :: byte list)) (length k) = 17825792"
    by (simp add: spec_totalSize_def r0 len) (simp add: roundUpToMultiple_def MiB_def)
  moreover have "(16777217 :: nat) mod MiB = 1" by (simp add: MiB_def)
  ultimately show ?thesis unfolding k_def by simp
qed

text \<open>
  Claim C3, amended: the total size is the maximum of the end of the kernel (kernel
  offset plus kernel size, not rounded) and 16 MiB. So it is at least the end of the
  kernel and at least 16 MiB for every input; it is a multiple of 1 MiB, and equal to
  the spec's formula, whenever the kernel ends within the first 16 MiB or the kernel size
  is a multiple of 1 MiB.
\<close>

theorem total_size_floor:
  "(\<exists>r. arm64_write None bl k = Inr r) \<and>
   (\<forall>r. arm64_write lim bl k = Inr r \<longrightarrow>
      final_size r = max (kernel_offset r + length k) (16 * MiB) \<and>
      length (image r) = final_size r \<and>
      kernel_offset r + length k \<le> final_size r \<and>
      16 * MiB \<le> final_size r \<and>
      (kernel_offset r + length k \<le> 16 * MiB \<or> MiB dvd length k \<longrightarrow>
         MiB dvd final_size r \<and> final_size r = spec_totalSize (length bl) (length k)))"
proof (intro conjI allI impI)
  show "\<exists>r. arm64_write None bl k = Inr r" by (rule arm64_write_total)
next
  fix r assume r: "arm64_write lim bl k = Inr r"
  note eqs = arm64_write_Inr [OF r]
  show fs: "final_size r = max (kernel_offset r + length k) (16 * MiB)"
    by (simp add: eqs length_assemble MiB_pos)
  show "length (image r) = final_size r" by (simp add: eqs)
  show "kernel_offset r + length k \<le> final_size r" by (simp add: fs)
  show "16 * MiB \<le> final_size r" by (simp add: fs)
  { assume c: "kernel_offset r + length k \<le> 16 * MiB \<or> MiB dvd length k"
    have d: "MiB dvd kernel_offset r" by (simp add: eqs roundUp_dvd)
    have "roundUpToMultiple (kernel_offset r + length k) MiB \<le> 16 * MiB \<and>
            final_size r = 16 * MiB
          \<or> roundUpToMultiple (kernel_offset r + length k) MiB = kernel_offset r + length k"
      using c
    proof
      assume le: "kernel_offset r + length k \<le> 16 * MiB"
      have "roundUpToMultiple (kernel_offset r + length k) MiB \<le> 16 * MiB"
        by (rule roundUp_least [OF MiB_pos _ le]) simp
      then show ?thesis using le by (simp add: fs max_def)
    next
      assume "MiB dvd length k"
      then have "MiB dvd kernel_offset r + length k" using d by simp
      then show ?thesis by (simp add: roundUp_fixed MiB_pos)
    qed
    then show sp: "final_size r = spec_totalSize (length bl) (length k)"
      unfolding spec_totalSize_def eqs(2) [symmetric] by (auto simp add: fs max_def)
    show "MiB dvd final_size r"
      unfolding sp spec_totalSize_def by (simp add: max_def roundUp_dvd) }
qed

theorem total_size_floor_witness:
  "\<exists>r. arm64_write None [1, 2] [3] = Inr r \<and> final_size r = 16777216 \<and>
       length (image r) = 16777216 \<and> MiB dvd final_size r"
proof -
  define bl :: "byte list" where "bl = [1, 2]"
  define k :: "byte list" where "k = [3]"
  note t = total_size_floor [of bl k None]
  from t obtain r where r: "arm64_write None bl k = Inr r" by (elim conjE exE)
  have off: "kernel_offset r = 1048576"
    using arm64_write_Inr(2) [OF r] by (simp add: bl_def roundUpToMultiple_def MiB_def)
  have c: "kernel_offset r + length k \<le> 16 * MiB \<or> MiB dvd length k"
    by (simp add: off k_def MiB_def)
  note b = conjunct2 [OF t, rule_format, OF r]
  from b c have "final_size r = 16777216 \<and> length (image r) = 16777216 \<and> MiB dvd final_size r"
    by (simp add: off k_def MiB_def)
  with r show ?thesis unfolding bl_def k_def by (intro exI [of _ r]) (simp add: MiB_def)
qed

section \<open>Child processes: helper lemmas\<close>

lemma subprocess_run_Exited:
  "h cmd (files w) = Exited rc fs \<Longrightarrow>
     subprocess_run h cmd None w = Returned rc (logged w [cmd] fs)"
  by (simp add: subprocess_run_def logged_def Let_def)

lemma logged_logged [simp]:
  "logged (logged w cs fs) cs' fs' = logged w (cs @ cs') fs'"
  by (simp add: logged_def)

lemma files_logged [simp]: "files (logged w cs fs) = fs"
  by (simp add: logged_def)

lemma subprocess_run_procs:
  "subprocess_run h cmd t w = Returned rc w' \<Longrightarrow> procs w' = procs w @ [(cmd, t)]"
  "subprocess_run h cmd t w = Raised e w' \<Longrightarrow> procs w' = procs w @ [(cmd, t)]"
  by (auto simp add: subprocess_run_def Let_def split: proc.splits option.splits)

lemma subprocess_run_Never:
  "h cmd (files w) = Never_exits \<Longrightarrow> subprocess_run h cmd None w = Hangs"
  by (simp add: subprocess_run_def Let_def)

lemma subprocess_run_Launch:
  "h cmd (files w) = Launch_error \<Longrightarrow>
     subprocess_run h cmd None w = Raised FileNotFoundError (logged w [cmd] (files w))"
  by (simp add: subprocess_run_def logged_def Let_def)

lemma untimed_refl: "untimed w w"
  by (simp add: untimed_def)

lemma untimed_step:
  assumes "procs w1 = procs w @ [(cmd, None)]" and "untimed w1 w'"
  shows "untimed w w'"
proof -
  from assms(2) obtain new where "procs w' = procs w1 @ new" "\<forall>e \<in> set new. snd e = None"
    by (auto simp add: untimed_def)
  then have "procs w' = procs w @ ((cmd, None) # new) \<and> (\<forall>e \<in> set ((cmd, None) # new). snd e = None)"
    using assms(1) by simp
  then show ?thesis unfolding untimed_def by blast
qed

lemma grub_untimed:
  assumes "create_iso_with_grub h temp_dir output_path w = Returned b w'"
  shows "untimed w w'"
proof (cases "subprocess_run h [''which'', ''grub-mkrescue''] None w")
  case (Returned rc w1)
  note s1 = subprocess_run_procs(1) [OF Returned]
  show ?thesis
  proof (cases "rc = 0")
    case False
    with assms Returned have "w' = w1" by (simp add: create_iso_with_grub_def)
    then show ?thesis using s1 by (blast intro: untimed_step untimed_refl)
  next
    case True
    show ?thesis
    proof (cases "subprocess_run h [''grub-mkrescue'', ''-o'', output_path, temp_dir] None w1")
      case (Returned rc2 w2)
      with assms \<open>rc = 0\<close> \<open>subprocess_run h [''which'', ''grub-mkrescue''] None w = Returned rc w1\<close>
      have "w' = w2" by (simp add: create_iso_with_grub_def Let_def split: if_splits)
      then show ?thesis
        using s1 subprocess_run_procs(1) [OF Returned]
        by (blast intro: untimed_step untimed_refl)
    next
      case (Raised e w2)
      with assms \<open>rc = 0\<close> \<open>subprocess_run h [''which'', ''grub-mkrescue''] None w = Returned rc w1\<close>
      have "w' = w2" by (simp add: create_iso_with_grub_def Let_def)
      then show ?thesis
        using s1 subprocess_run_procs(2) [OF Raised]
        by (blast intro: untimed_step untimed_refl)
    next
      case Hangs
      with assms \<open>rc = 0\<close> \<open>subprocess_run h [''which'', ''grub-mkrescue''] None w = Returned rc w1\<close>
      show ?thesis by (simp add: create_iso_with_grub_def Let_def)
    qed
  qed
next
  case (Raised e w1)
  with assms have "w' = w1" by (simp add: create_iso_with_grub_def)
  then show ?thesis
    using subprocess_run_procs(2) [OF Raised] by (blast intro: untimed_step untimed_refl)
next
  case Hangs
  with assms show ?thesis by (simp add: create_iso_with_grub_def)
qed

lemma mkisofs_loop_untimed:
  "mkisofs_loop h temp_dir output_path names w = Returned b w' \<Longrightarrow> untimed w w'"
proof (induction names arbitrary: w)
  case Nil
  then show ?case by (simp add: untimed_refl)
next
  case (Cons n names)
  show ?case
  proof (cases "subprocess_run h [''which'', n] None w")
    case (Returned rc w1)
    note s1 = subprocess_run_procs(1) [OF Returned]
    show ?thesis
    proof (cases "rc = 0")
      case False
      with Cons.prems Returned have "mkisofs_loop h temp_dir output_path names w1 = Returned b w'"
        by simp
      then have "untimed w1 w'" by (rule Cons.IH)
      then show ?thesis using s1 by (rule untimed_step [rotated])
    next
      case True
      show ?thesis
      proof (cases "subprocess_run h (mkisofs_cmd n output_path temp_dir) None w1")
        case r2: (Returned rc2 w2)
        note s2 = subprocess_run_procs(1) [OF r2]
        have "untimed w2 w'"
        proof (cases "rc2 = 0")
          case True
          with Cons.prems Returned \<open>rc = 0\<close> r2 have "w' = w2" by (simp add: Let_def)
          then show ?thesis by (simp add: untimed_refl)
        next
          case False
          with Cons.prems Returned \<open>rc = 0\<close> r2
          have "mkisofs_loop h temp_dir output_path names w2 = Returned b w'"
            by (simp add: Let_def)
          then show ?thesis by (rule Cons.IH)
        qed
        then show ?thesis using s1 s2 by (blast intro: untimed_step)
      next
        case r2: (Raised e w2)
        with Cons.prems Returned \<open>rc = 0\<close> have "w' = w2" by (simp add: Let_def)
        then show ?thesis
          using s1 subprocess_run_procs(2) [OF r2] by (blast intro: untimed_step untimed_refl)
      next
        case Hangs
        with Cons.prems Returned \<open>rc = 0\<close> show ?thesis by (simp add: Let_def)
      qed
    qed
  next
    case (Raised e w1)
    with Cons.prems have "w' = w1" by simp
    then show ?thesis
      using subprocess_run_procs(2) [OF Raised] by (blast intro: untimed_step untimed_refl)
  next
    case Hangs
    with Cons.prems show ?thesis by simp
  qed
qed

section \<open>The x86-64 raw image\<close>

text \<open>
  Claim C10. For every kernel path, bootloader path and output path,
  \<^verbatim>\<open>create_x86_64_image\<close> gives the result of \<^verbatim>\<open>create_arm64_image\<close> and leaves the same
  files, and \<^verbatim>\<open>main\<close> of \<^verbatim>\<open>create_image.py\<close> ends the same way, with the same output
  file, whether \<^verbatim>\<open>--arch\<close> is \<^verbatim>\<open>x86_64\<close> or \<^verbatim>\<open>arm64\<close>.
\<close>

theorem x86_64_delegates:
  "create_x86_64_image w kernel_path bootloader_path output_path =
     create_arm64_image w kernel_path bootloader_path output_path \<and>
   create_image_main (a\<lparr>arch := X86_64\<rparr>) w = create_image_main (a\<lparr>arch := Arm64\<rparr>) w"
  by (simp add: create_x86_64_image_def create_image_main_def split: sum.splits)

theorem x86_64_delegates_witness:
  "create_image_main (demo_image_args\<lparr>arch := X86_64\<rparr>) demo_world =
     Returned 0 (demo_world\<lparr>files := (files demo_world)(''minios.img'' \<mapsto>
        [0xEB, 0xFE] @ replicate 1048574 0 @ [0x7F, 0x45, 0x4C, 0x46] @ replicate 15728636 0)\<rparr>)"
proof -
  define k :: "byte list" where "k = [0x7F, 0x45, 0x4C, 0x46]"
  define bl :: "byte list" where "bl = [0xEB, 0xFE]"
  define w1 where "w1 = demo_world\<lparr>files := (files demo_world)(''minios.img'' \<mapsto> [])\<rparr>"
  have d: "dirname ''minios.img'' = []" by (simp add: dirname_def)
  have o: "open_wb demo_world ''minios.img'' = Inr w1"
    by (simp add: open_wb_def demo_world_def d w1_def)
  have as: "assemble MiB (16 * MiB) bl k = bl @ replicate 1048574 0 @ k @ replicate 15728636 0"
    by (simp add: assemble_def Let_def roundUpToMultiple_def MiB_def bl_def k_def)
  have wr: "arm64_write (fsize_limit demo_world) bl k =
      Inr \<lparr>image = assemble MiB (16 * MiB) bl k,
           kernel_offset = roundUpToMultiple (length bl) MiB,
           final_size = length (assemble MiB (16 * MiB) bl k)\<rparr>"
    by (simp add: demo_world_def arm64_write_layout write_layout_None [OF MiB_pos])
  have "create_arm64_image demo_world ''kernel.elf'' ''boot.bin'' ''minios.img'' =
      Returned True (file_close w1 ''minios.img'' (assemble MiB (16 * MiB) bl k))"
    using create_arm64_image_ok [OF _ _ o wr, of "''kernel.elf''" "''boot.bin''"]
    by (simp add: demo_world_def k_def bl_def)
  then have "create_image_main (demo_image_args\<lparr>arch := Arm64\<rparr>) demo_world =
      Returned 0 (file_close w1 ''minios.img'' (assemble MiB (16 * MiB) bl k))"
    by (simp add: create_image_main_def demo_image_args_def prepare_output_dir_def d
        path_exists_def) (simp add: demo_world_def)
  then show ?thesis
    using x86_64_delegates [of demo_world "''kernel.elf''" "''boot.bin''" "''minios.img''"
        demo_image_args]
    by (simp add: as [unfolded bl_def k_def] file_close_def w1_def bl_def k_def)
qed

section \<open>The mkisofs strategy\<close>

text \<open>
  Claim C6, as stated: the strategy builds its invocation on the first tool that is
  available, and that tool's exit status alone decides success. It fails on a host
  where \<^verbatim>\<open>mkisofs\<close> is available and exits with status 1 and \<^verbatim>\<open>genisoimage\<close> is
  available and exits with status 0: the strategy runs both and returns \<open>True\<close>.
\<close>

theorem mkisofs_first_failure_counterexample:
  "retry_host [''which'', ''mkisofs''] (files demo_world) = Exited 0 (files demo_world) \<and>
   retry_host (mkisofs_cmd ''mkisofs'' ''minios.iso'' ''/tmp/iso'') (files demo_world) =
     Exited 1 (files demo_world) \<and>
   create_iso_with_mkisofs retry_host ''/tmp/iso'' ''minios.iso'' ''boot.bin'' demo_world =
     Returned True
       (demo_world
          \<lparr>procs := [([''which'', ''mkisofs''], None),
                     (mkisofs_cmd ''mkisofs'' ''minios.iso'' ''/tmp/iso'', None),
                     ([''which'', ''genisoimage''], None),
                     (mkisofs_cmd ''genisoimage'' ''minios.iso'' ''/tmp/iso'', None)],
           files := (files demo_world)(''minios.iso'' \<mapsto> [0x43, 0x44])\<rparr>)"
  by (simp add: create_iso_with_mkisofs_def subprocess_run_def retry_host_def mkisofs_cmd_def
      Let_def demo_world_def)

text \<open>
  Claim C6, amended. The strategy tries the names \<^verbatim>\<open>mkisofs\<close>, then \<^verbatim>\<open>genisoimage\<close>.
  Each one that \<^verbatim>\<open>which\<close> finds is run with exactly the El Torito command line
  \<^verbatim>\<open>-b boot/bootloader.bin -no-emul-boot -boot-load-size 4 -boot-info-table -o\<close> output
  staging-directory. The strategy succeeds as soon as a tool it ran exits with status 0;
  when \<^verbatim>\<open>mkisofs\<close> exits with another status, \<^verbatim>\<open>genisoimage\<close> is probed and run in turn
  and its exit status decides; when no tool it ran exits with status 0, or none is
  found, the strategy fails.
\<close>

theorem mkisofs_strategy:
  assumes w1: "\<And>fs. h [''which'', ''mkisofs''] fs = Exited a1 fs"
    and w2: "\<And>fs. h [''which'', ''genisoimage''] fs = Exited a2 fs"
    and t1: "\<And>fs. a1 = 0 \<Longrightarrow> h (mkisofs_cmd ''mkisofs'' out tmp) fs = Exited r1 (g1 fs)"
    and t2: "\<And>fs. a2 = 0 \<Longrightarrow> h (mkisofs_cmd ''genisoimage'' out tmp) fs = Exited r2 (g2 fs)"
  shows "mkisofs_cmd n out tmp =
           [n, ''-b'', ''boot/bootloader.bin'', ''-no-emul-boot'', ''-boot-load-size'', ''4'',
            ''-boot-info-table'', ''-o'', out, tmp] \<and>
         create_iso_with_mkisofs h tmp out bootloader_path w =
     (if a1 = 0 then
        if r1 = 0
        then Returned True
          (logged w [[''which'', ''mkisofs''], mkisofs_cmd ''mkisofs'' out tmp] (g1 (files w)))
        else if a2 = 0
        then Returned (r2 = 0)
          (logged w [[''which'', ''mkisofs''], mkisofs_cmd ''mkisofs'' out tmp,
                     [''which'', ''genisoimage''], mkisofs_cmd ''genisoimage'' out tmp]
             (g2 (g1 (files w))))
        else Returned False
          (logged w [[''which'', ''mkisofs''], mkisofs_cmd ''mkisofs'' out tmp,
                     [''which'', ''genisoimage'']] (g1 (files w)))
      else if a2 = 0
      then Returned (r2 = 0)
          (logged w [[''which'', ''mkisofs''], [''which'', ''genisoimage''],
                     mkisofs_cmd ''genisoimage'' out tmp] (g2 (files w)))
      else Returned False
          (logged w [[''which'', ''mkisofs''], [''which'', ''genisoimage'']] (files w)))"
proof
  show "mkisofs_cmd n out tmp =
           [n, ''-b'', ''boot/bootloader.bin'', ''-no-emul-boot'', ''-boot-load-size'', ''4'',
            ''-boot-info-table'', ''-o'', out, tmp]"
    by (simp add: mkisofs_cmd_def)
next
  have p1: "\<And>w. subprocess_run h [''which'', ''mkisofs''] None w =
      Returned a1 (logged w [[''which'', ''mkisofs'']] (files w))"
    by (rule subprocess_run_Exited) (rule w1)
  have p2: "\<And>w. subprocess_run h [''which'', ''genisoimage''] None w =
      Returned a2 (logged w [[''which'', ''genisoimage'']] (files w))"
    by (rule subprocess_run_Exited) (rule w2)
  have q1: "\<And>w. a1 = 0 \<Longrightarrow> subprocess_run h (mkisofs_cmd ''mkisofs'' out tmp) None w =
      Returned r1 (logged w [mkisofs_cmd ''mkisofs'' out tmp] (g1 (files w)))"
    by (rule subprocess_run_Exited) (rule t1)
  have q2: "\<And>w. a2 = 0 \<Longrightarrow> subprocess_run h (mkisofs_cmd ''genisoimage'' out tmp) None w =
      Returned r2 (logged w [mkisofs_cmd ''genisoimage'' out tmp] (g2 (files w)))"
    by (rule subprocess_run_Exited) (rule t2)
  show "create_iso_with_mkisofs h tmp out bootloader_path w =
     (if a1 = 0 then
        if r1 = 0
        then Returned True
          (logged w [[''which'', ''mkisofs''], mkisofs_cmd ''mkisofs'' out tmp] (g1 (files w)))
        else if a2 = 0
        then Returned (r2 = 0)
          (logged w [[''which'', ''mkisofs''], mkisofs_cmd ''mkisofs'' out tmp,
                     [''which'', ''genisoimage''], mkisofs_cmd ''genisoimage'' out tmp]
             (g2 (g1 (files w))))
        else Returned False
          (logged w [[''which'', ''mkisofs''], mkisofs_cmd ''mkisofs'' out tmp,
                     [''which'', ''genisoimage'']] (g1 (files w)))
      else if a2 = 0
      then Returned (r2 = 0)
          (logged w [[''which'', ''mkisofs''], [''which'', ''genisoimage''],
                     mkisofs_cmd ''genisoimage'' out tmp] (g2 (files w)))
      else Returned False
          (logged w [[''which'', ''mkisofs''], [''which'', ''genisoimage'']] (files w)))"
    unfolding create_iso_with_mkisofs_def
    by (simp add: p1 p2 q1 q2 Let_def)
qed

theorem mkisofs_strategy_witness:
  "create_iso_with_mkisofs retry_host ''/tmp/iso'' ''minios.iso'' ''boot.bin'' demo_world =
     Returned True
       (logged demo_world
          [[''which'', ''mkisofs''],
           [''mkisofs'', ''-b'', ''boot/bootloader.bin'', ''-no-emul-boot'',
            ''-boot-load-size'', ''4'', ''-boot-info-table'', ''-o'', ''minios.iso'', ''/tmp/iso''],
           [''which'', ''genisoimage''],
           [''genisoimage'', ''-b'', ''boot/bootloader.bin'', ''-no-emul-boot'',
            ''-boot-load-size'', ''4'', ''-boot-info-table'', ''-o'', ''minios.iso'', ''/tmp/iso'']]
          ((files demo_world)(''minios.iso'' \<mapsto> [0x43, 0x44])))"
  using mkisofs_strategy [of retry_host 0 0 "''minios.iso''" "''/tmp/iso''" 1 "\<lambda>fs. fs" 0
      "\<lambda>fs. fs(''minios.iso'' \<mapsto> [0x43, 0x44])" "''mkisofs''" "''boot.bin''" demo_world]
  by (simp add: retry_host_def mkisofs_cmd_def)

section \<open>Paths and staging: helper lemmas\<close>

lemma path_join_rel:
  "a \<noteq> [] \<Longrightarrow> last a \<noteq> CHR ''/'' \<Longrightarrow> \<not> prefix ''/'' b \<Longrightarrow> path_join a b = a @ ''/'' @ b"
  by (simp add: path_join_def)

lemma dirname_join:
  assumes d: "d \<noteq> []" "last d \<noteq> CHR ''/''" and x: "CHR ''/'' \<notin> set x"
  shows "dirname (d @ ''/'' @ x) = d"
proof -
  have h: "dropWhile (\<lambda>c. c \<noteq> CHR ''/'') (rev (d @ ''/'' @ x)) = CHR ''/'' # rev d"
  proof -
    have "dropWhile (\<lambda>c. c \<noteq> CHR ''/'') (rev x @ CHR ''/'' # rev d) =
        dropWhile (\<lambda>c. c \<noteq> CHR ''/'') (CHR ''/'' # rev d)"
      by (rule dropWhile_append2) (use x in auto)
    then show ?thesis by simp
  qed
  have nd: "d @ ''/'' \<noteq> replicate (Suc (length d)) (CHR ''/'')"
  proof
    assume "d @ ''/'' = replicate (Suc (length d)) (CHR ''/'')"
    then have "set (d @ ''/'') \<subseteq> {CHR ''/''}" by (metis set_replicate_conv_if empty_subsetI subset_refl)
    moreover have "last d \<in> set d" using d(1) by simp
    ultimately show False using d(2) by auto
  qed
  have "hd (rev d) \<noteq> CHR ''/''" using d by (simp add: hd_rev)
  then have s: "dropWhile (\<lambda>c. c = CHR ''/'') (rev d) = rev d"
    using d(1) by (cases "rev d") simp_all
  show ?thesis
    unfolding dirname_def h Let_def using nd by (simp add: s)
qed

lemma ancestors_shorter: "a \<in> set (ancestors p) \<Longrightarrow> length a < length p"
  by (auto simp add: ancestors_def)

lemma ancestors_prefix: "a \<in> set (ancestors p) \<Longrightarrow> prefix a p"
  by (auto simp add: ancestors_def take_is_prefix)

lemma rev_dropWhile_prefix: "prefix (rev (dropWhile P (rev xs))) xs"
proof -
  have "rev (rev xs) = rev (takeWhile P (rev xs) @ dropWhile P (rev xs))" by simp
  then have "xs = rev (dropWhile P (rev xs)) @ rev (takeWhile P (rev xs))"
    unfolding rev_append by simp
  then show ?thesis by (metis prefixI)
qed

lemma dirname_prefix: "prefix (dirname p) p"
proof -
  define head where "head = rev (dropWhile (\<lambda>c. c \<noteq> CHR ''/'') (rev p))"
  have h: "prefix head p" unfolding head_def by (rule rev_dropWhile_prefix)
  have "prefix (rev (dropWhile (\<lambda>c. c = CHR ''/'') (rev head))) head"
    by (rule rev_dropWhile_prefix)
  with h have "prefix (rev (dropWhile (\<lambda>c. c = CHR ''/'') (rev head))) p"
    by (rule prefix_order.order_trans [rotated])
  with h show ?thesis
    unfolding dirname_def head_def [symmetric] Let_def by simp
qed

lemma dirname_shorter:
  assumes "p \<noteq> []" "last p \<noteq> CHR ''/''"
  shows "length (dirname p) < length p"
proof -
  define head where "head = rev (dropWhile (\<lambda>c. c \<noteq> CHR ''/'') (rev p))"
  from assms obtain c r where r: "rev p = c # r" "c \<noteq> CHR ''/''"
    by (cases "rev p") (auto simp add: last_rev [symmetric] hd_rev)
  have "length (dropWhile (\<lambda>c. c \<noteq> CHR ''/'') r) \<le> length r" by (rule length_dropWhile_le)
  then have l: "length head < length p"
    using r arg_cong [OF r(1), of length] by (simp add: head_def)
  have "length (rev (dropWhile (\<lambda>c. c = CHR ''/'') (rev head))) \<le> length head"
    using length_dropWhile_le [of _ "rev head"] by simp
  with l show ?thesis
    unfolding dirname_def head_def [symmetric] Let_def by simp
qed

lemma ancestors_append:
  assumes "a \<in> set (ancestors (d @ ''/'' @ x))"
  shows "a \<in> set (ancestors d) \<or> a = d \<or> (prefix d a \<and> a \<noteq> d)"
proof -
  from assms obtain i where i: "1 \<le> i" "i < length (d @ ''/'' @ x)"
    "(d @ ''/'' @ x) ! i = CHR ''/''" "a = take i (d @ ''/'' @ x)"
    by (auto simp add: ancestors_def)
  consider "i < length d" | "i = length d" | "length d < i" by linarith
  then show ?thesis
  proof cases
    case 1
    then have "a = take i d" "d ! i = CHR ''/''" using i by (simp_all add: nth_append)
    then show ?thesis using 1 i(1) by (auto simp add: ancestors_def)
  next
    case 2
    then show ?thesis using i by simp
  next
    case 3
    then have "a = d @ take (i - length d) (''/'' @ x)" using i by simp
    moreover have "take (i - length d) (''/'' @ x) \<noteq> []" using 3 by simp
    ultimately show ?thesis by (simp add: prefix_def)
  qed
qed

lemma f_write_fits: "fits w data \<Longrightarrow> f_write (fsize_limit w) [] data = Inr data"
  by (simp add: fits_def f_write_def split: option.splits)

lemma f_write_not_fits:
  "\<not> fits w data \<Longrightarrow> f_write (fsize_limit w) [] data = Inl (take (the (fsize_limit w)) data)"
  by (auto simp add: fits_def f_write_def split: option.splits)

lemma makedirs_fresh:
  "\<not> path_exists w p \<Longrightarrow> \<forall>a \<in> set (ancestors p). files w a = None \<Longrightarrow>
     makedirs w p = Inr (w\<lparr>dirs := dirs w \<union> set (ancestors p) \<union> {p}\<rparr>)"
  by (simp add: makedirs_def)

lemma open_wb_ok:
  "p \<noteq> [] \<Longrightarrow> last p \<noteq> CHR ''/'' \<Longrightarrow> p \<notin> dirs w \<Longrightarrow>
   dirname p = [] \<or> dirname p \<in> dirs w \<Longrightarrow>
     open_wb w p = Inr (w\<lparr>files := (files w)(p \<mapsto> [])\<rparr>)"
  by (auto simp add: open_wb_def)

lemma copy2_ok:
  assumes "dst \<notin> dirs w" "src \<noteq> dst" "files w src = Some data" "dirname dst \<in> dirs w"
    "fits w data" "dst \<noteq> []" "last dst \<noteq> CHR ''/''"
  shows "copy2 w src dst = Inr (w\<lparr>files := (files w)(dst \<mapsto> data)\<rparr>)"
  using assms f_write_fits [OF assms(5)]
  by (simp add: copy2_def open_rb_def open_wb_def file_close_def Let_def)

lemma fresh_not_exists:
  "fresh_dir w tmp \<Longrightarrow> s \<noteq> [] \<Longrightarrow> files w (tmp @ s) = None \<and> tmp @ s \<notin> dirs w"
  by (auto simp add: fresh_dir_def path_exists_def)

lemma fresh_ancestors:
  assumes f: "fresh_dir w tmp" and a: "a \<in> set (ancestors (tmp @ ''/'' @ x))"
  shows "files w a = None"
proof -
  from ancestors_append [OF a]
  consider "a \<in> set (ancestors tmp)" | "a = tmp" | "prefix tmp a \<and> a \<noteq> tmp" by blast
  then show ?thesis using f by cases (auto simp add: fresh_dir_def path_exists_def)
qed

lemma create_iso_structure_fresh:
  assumes f: "fresh_dir w tmp"
    and k: "files w kernel_path = Some k" and b: "files w bootloader_path = Some b"
    and fk: "fits w k" and fb: "fits w b" and fc: "fits w (encode grub_cfg_text)"
  shows "create_iso_structure w kernel_path bootloader_path tmp = Returned True (staged w tmp k b)"
proof -
  define boot where "boot = tmp @ ''/boot''"
  define kd where "kd = tmp @ ''/boot/kernel.elf''"
  define bd where "bd = tmp @ ''/boot/bootloader.bin''"
  define grub where "grub = tmp @ ''/boot/grub''"
  define cfg where "cfg = tmp @ ''/boot/grub/grub.cfg''"
  have t: "tmp \<noteq> []" "last tmp \<noteq> CHR ''/''" using f by (simp_all add: fresh_dir_def)
  have j1: "path_join tmp ''boot'' = boot"
    using t by (simp add: path_join_rel boot_def)
  have lb: "boot \<noteq> []" "last boot \<noteq> CHR ''/''" by (simp_all add: boot_def)
  have j2: "path_join boot ''kernel.elf'' = kd" "path_join boot ''bootloader.bin'' = bd"
    "path_join boot ''grub'' = grub"
    using lb by (simp_all add: path_join_rel) (simp_all add: boot_def kd_def bd_def grub_def)
  have lg: "grub \<noteq> []" "last grub \<noteq> CHR ''/''" by (simp_all add: grub_def)
  have j3: "path_join grub ''grub.cfg'' = cfg"
    using lg by (simp add: path_join_rel) (simp add: grub_def cfg_def)
  have dk: "dirname kd = boot" "dirname bd = boot"
    using dirname_join [OF lb, of "''kernel.elf''"] dirname_join [OF lb, of "''bootloader.bin''"]
    by (simp_all add: boot_def kd_def bd_def)
  have dc: "dirname cfg = grub"
    using dirname_join [OF lg, of "''grub.cfg''"] by (simp add: grub_def cfg_def)
  note ne = fresh_not_exists [OF f]
  have none: "files w boot = None" "files w kd = None" "files w bd = None"
    "files w grub = None" "files w cfg = None"
    "boot \<notin> dirs w" "kd \<notin> dirs w" "bd \<notin> dirs w" "grub \<notin> dirs w" "cfg \<notin> dirs w"
    using ne [of "''/boot''"] ne [of "''/boot/kernel.elf''"] ne [of "''/boot/bootloader.bin''"]
      ne [of "''/boot/grub''"] ne [of "''/boot/grub/grub.cfg''"]
    by (simp_all add: boot_def kd_def bd_def grub_def cfg_def)
  have ab: "\<forall>a \<in> set (ancestors boot). files w a = None"
    using fresh_ancestors [OF f, of _ "''boot''"] by (simp add: boot_def)
  have ag: "\<forall>a \<in> set (ancestors grub). files w a = None"
    using fresh_ancestors [OF f, of _ "''boot/grub''"] by (simp add: grub_def)
  have lens: "length boot = length tmp + 5" "length kd = length tmp + 16"
    "length bd = length tmp + 20" "length grub = length tmp + 10" "length cfg = length tmp + 19"
    by (simp_all add: boot_def kd_def bd_def grub_def cfg_def)
  have nab: "kd \<notin> set (ancestors boot)" "bd \<notin> set (ancestors boot)"
    "grub \<notin> set (ancestors boot)" "cfg \<notin> set (ancestors boot)"
    "kd \<notin> set (ancestors grub)" "bd \<notin> set (ancestors grub)" "cfg \<notin> set (ancestors grub)"
    using ancestors_shorter [of _ boot] ancestors_shorter [of _ grub] lens by fastforce+
  have neq: "kd \<noteq> boot" "bd \<noteq> boot" "bd \<noteq> kd" "grub \<noteq> boot" "grub \<noteq> kd" "grub \<noteq> bd"
    "cfg \<noteq> boot" "cfg \<noteq> kd" "cfg \<noteq> bd" "cfg \<noteq> grub"
    by (simp_all add: boot_def kd_def bd_def grub_def cfg_def)
  have src: "kernel_path \<noteq> kd" "bootloader_path \<noteq> bd" "kernel_path \<noteq> bd"
    "bootloader_path \<noteq> kd"
    using k b none by auto
  have ends: "kd \<noteq> []" "last kd \<noteq> CHR ''/''" "bd \<noteq> []" "last bd \<noteq> CHR ''/''"
    "cfg \<noteq> []" "last cfg \<noteq> CHR ''/''"
    by (simp_all add: kd_def bd_def cfg_def)
  define w1 where "w1 = w\<lparr>dirs := dirs w \<union> set (ancestors boot) \<union> {boot}\<rparr>"
  define w2 where "w2 = w1\<lparr>files := (files w1)(kd \<mapsto> k)\<rparr>"
  define w3 where "w3 = w2\<lparr>files := (files w2)(bd \<mapsto> b)\<rparr>"
  define w4 where "w4 = w3\<lparr>dirs := dirs w3 \<union> set (ancestors grub) \<union> {grub}\<rparr>"
  have s1: "makedirs w boot = Inr w1"
    unfolding w1_def using none ab by (intro makedirs_fresh) (simp_all add: path_exists_def)
  have s2: "copy2 w1 kernel_path kd = Inr w2"
    unfolding w2_def
    using none nab neq src k fk ends by (intro copy2_ok) (simp_all add: w1_def dk fits_def)
  have s3: "copy2 w2 bootloader_path bd = Inr w3"
    unfolding w3_def
    using none nab neq src b fb ends
    by (intro copy2_ok) (simp_all add: w2_def w1_def dk fits_def)
  have "\<forall>a \<in> set (ancestors grub). files w3 a = None"
    using ag nab by (auto simp add: w3_def w2_def w1_def)
  then have s4: "makedirs w3 grub = Inr w4"
    unfolding w4_def using none nab neq
    by (intro makedirs_fresh) (simp_all add: path_exists_def w3_def w2_def w1_def)
  have s5: "open_wb w4 cfg = Inr (w4\<lparr>files := (files w4)(cfg \<mapsto> [])\<rparr>)"
    using none nab neq ends by (simp add: open_wb_def dc w4_def w3_def w2_def w1_def)
  have s6: "f_write (fsize_limit w4) [] (encode grub_cfg_text) = Inr (encode grub_cfg_text)"
    using f_write_fits [OF fc] by (simp add: w4_def w3_def w2_def w1_def)
  have fin: "file_close (w4\<lparr>files := (files w4)(cfg \<mapsto> [])\<rparr>) cfg (encode grub_cfg_text) =
      staged w tmp k b"
    by (simp add: file_close_def staged_def w4_def w3_def w2_def w1_def
        boot_def kd_def bd_def grub_def cfg_def)
  show ?thesis
    unfolding create_iso_structure_def Let_def j1 j2 j3
    by (simp add: s1 s2 s3 s4 s5 s6 fin)
qed


lemma below_append: "below tmp (tmp @ ''/'' @ s)"
  by (simp add: below_def)

lemma fresh_below_none:
  "fresh_dir w tmp \<Longrightarrow> below tmp p \<Longrightarrow> files w p = None"
  by (auto simp add: fresh_dir_def below_def path_exists_def prefix_def)

lemma ancestors_tmp_iso: "ancestors ''/tmp/iso'' = [''/tmp'']"
  by (simp add: ancestors_def upt_rec)


section \<open>The staging tree\<close>



section \<open>The chain of builders: helper lemmas\<close>

lemma grub_unavailable:
  "h [''which'', ''grub-mkrescue''] (files w) = Exited rc fs \<Longrightarrow> rc \<noteq> 0 \<Longrightarrow>
     create_iso_with_grub h t out w = Returned False (logged w [[''which'', ''grub-mkrescue'']] fs)"
  by (simp add: create_iso_with_grub_def subprocess_run_Exited)

lemma mkisofs_unavailable:
  "h [''which'', ''mkisofs''] (files w) = Exited r1 fs1 \<Longrightarrow> r1 \<noteq> 0 \<Longrightarrow>
   h [''which'', ''genisoimage''] fs1 = Exited r2 fs2 \<Longrightarrow> r2 \<noteq> 0 \<Longrightarrow>
     create_iso_with_mkisofs h t out bp w =
       Returned False (logged w [[''which'', ''mkisofs''], [''which'', ''genisoimage'']] fs2)"
  by (simp add: create_iso_with_mkisofs_def subprocess_run_Exited)

lemma create_simple_iso_eval:
  assumes b: "files w bootloader_path = Some b" and k: "files w kernel_path = Some k"
    and ne: "output_path \<noteq> bootloader_path" "output_path \<noteq> kernel_path"
    and o: "open_wb w output_path = Inr w0"
  shows "create_simple_iso w kernel_path bootloader_path output_path =
           Returned (fits w (assemble 512 (2 * MiB) b k))
             (w\<lparr>files := (files w)(output_path \<mapsto> written w (assemble 512 (2 * MiB) b k))\<rparr>)"
proof -
  define w1 where "w1 = w\<lparr>files := (files w)(output_path \<mapsto> [])\<rparr>"
  have op: "open_wb w output_path = Inr w1" using o open_wb_Inr [OF o] by (simp add: w1_def)
  have r: "files w1 bootloader_path = Some b" "files w1 kernel_path = Some k"
    using b k ne by (simp_all add: w1_def)
  have p: "0 < (512::nat)" by simp
  have l: "fsize_limit w1 = fsize_limit w" by (simp add: w1_def)
  have wr: "simple_iso_write w1 output_path kernel_path bootloader_path =
      f_write (fsize_limit w) [] (assemble 512 (2 * MiB) b k)"
    unfolding simple_iso_write_layout [OF r ne(2) [symmetric]] write_layout_assemble [OF p] l
    by (cases "f_write (fsize_limit w) [] (assemble 512 (2 * MiB) b k)")
      (simp_all add: then_do_def)
  show ?thesis
  proof (cases "fits w (assemble 512 (2 * MiB) b k)")
    case True
    then show ?thesis
      by (simp add: create_simple_iso_def op [unfolded w1_def] wr [unfolded w1_def] f_write_fits
          written_def file_close_def)
  next
    case False
    then show ?thesis
      by (simp add: create_simple_iso_def op [unfolded w1_def] wr [unfolded w1_def] f_write_not_fits
          written_def file_close_def)
  qed
qed

lemma unused_fresh:
  assumes "unused_name w tmp"
  shows "TemporaryDirectory w tmp = Inr (w\<lparr>dirs := insert tmp (dirs w)\<rparr>)"
    and "fresh_dir (w\<lparr>dirs := insert tmp (dirs w)\<rparr>) tmp"
  using assms
  by (auto simp add: unused_name_def TemporaryDirectory_def fresh_dir_def path_exists_def)

lemma below_prefix: "below tmp p \<Longrightarrow> prefix tmp p \<and> p \<noteq> tmp"
  by (auto simp add: below_def prefix_def)

lemma fits_cong: "fsize_limit w' = fsize_limit w \<Longrightarrow> fits w' d = fits w d"
  by (simp add: fits_def)

lemma written_cong: "fsize_limit w' = fsize_limit w \<Longrightarrow> written w' d = written w d"
  by (simp add: written_def fits_def)

lemma iso_build_no_tools:
  assumes g: "\<And>fs. h [''which'', ''grub-mkrescue''] fs = Exited rg fs" "rg \<noteq> 0"
    and m: "\<And>fs. h [''which'', ''mkisofs''] fs = Exited rm fs" "rm \<noteq> 0"
    and i: "\<And>fs. h [''which'', ''genisoimage''] fs = Exited ri fs" "ri \<noteq> 0"
    and k: "files w (kernel a) = Some k" and b: "files w (bootloader a) = Some b"
    and f: "fresh_dir w tmp"
    and anc: "\<forall>x \<in> set (ancestors tmp). x \<in> dirs w"
    and fit: "fits w k" "fits w b" "fits w (encode grub_cfg_text)"
    and o: "output a \<notin> dirs w" "dirname (output a) = [] \<or> dirname (output a) \<in> dirs w"
      "\<not> prefix tmp (output a)" "output a \<noteq> kernel a" "output a \<noteq> bootloader a"
    and oe: "output a \<noteq> []" "last (output a) \<noteq> CHR ''/''"
  shows "iso_build h a tmp w =
     Returned (fits w (assemble 512 (2 * MiB) b k))
       ((logged (staged w tmp k b)
          [[''which'', ''grub-mkrescue''], [''which'', ''mkisofs''], [''which'', ''genisoimage'']]
          (files (staged w tmp k b)))
        \<lparr>files := (files (staged w tmp k b))
            (output a \<mapsto> written w (assemble 512 (2 * MiB) b k))\<rparr>)"
proof -
  define w2 where "w2 = staged w tmp k b"
  define w4 where "w4 = logged w2
      [[''which'', ''grub-mkrescue''], [''which'', ''mkisofs''], [''which'', ''genisoimage'']]
      (files w2)"
  have s: "create_iso_structure w (kernel a) (bootloader a) tmp = Returned True w2"
    unfolding w2_def by (rule create_iso_structure_fresh [OF f k b fit])
  have gr: "create_iso_with_grub h tmp (output a) w2 =
      Returned False (logged w2 [[''which'', ''grub-mkrescue'']] (files w2))"
    by (rule grub_unavailable) (rule g)+
  have mk: "create_iso_with_mkisofs h tmp (output a) (bootloader a)
        (logged w2 [[''which'', ''grub-mkrescue'']] (files w2)) = Returned False w4"
    using mkisofs_unavailable [of h "logged w2 [[''which'', ''grub-mkrescue'']] (files w2)"
        rm "files w2" ri "files w2" tmp "output a" "bootloader a"] m i
    by (simp add: w4_def)
  note nb = fresh_below_none [OF f]
  have nk: "\<not> below tmp (kernel a)" "\<not> below tmp (bootloader a)" using nb k b by auto
  have bel: "below tmp (tmp @ ''/boot/kernel.elf'')" "below tmp (tmp @ ''/boot/bootloader.bin'')"
    "below tmp (tmp @ ''/boot/grub/grub.cfg'')"
    by (simp_all add: below_def)
  have fw2: "\<And>p. \<not> below tmp p \<Longrightarrow> files w2 p = files w p"
    using bel by (auto simp add: w2_def staged_def)
  have k4: "files w4 (kernel a) = Some k" and b4: "files w4 (bootloader a) = Some b"
    using fw2 nk k b by (simp_all add: w4_def)
  have ext: "\<And>s. output a \<noteq> tmp @ s"
  proof
    fix s assume "output a = tmp @ s"
    then have "prefix tmp (output a)" by simp
    with o(3) show False by simp
  qed
  have ob: "output a \<noteq> tmp" "output a \<noteq> tmp @ ''/boot''" "output a \<noteq> tmp @ ''/boot/grub''"
    using ext [of "[]"] ext [of "''/boot''"] ext [of "''/boot/grub''"] by simp_all
  have na: "\<And>x. output a \<notin> set (ancestors (tmp @ ''/'' @ x))"
  proof
    fix x assume "output a \<in> set (ancestors (tmp @ ''/'' @ x))"
    from ancestors_append [OF this]
    consider "output a \<in> set (ancestors tmp)" | "output a = tmp" | "prefix tmp (output a)"
      by blast
    then show False
    proof cases
      case 1
      with anc have "output a \<in> dirs w" by blast
      with o(1) show False by simp
    next
      case 2
      with ob(1) show False by simp
    next
      case 3
      with o(3) show False by simp
    qed
  qed
  have oa: "output a \<notin> set (ancestors (tmp @ ''/boot''))"
    "output a \<notin> set (ancestors (tmp @ ''/boot/grub''))"
    using na [of "''boot''"] na [of "''boot/grub''"] by simp_all
  have d4: "dirs w4 = dirs w \<union> set (ancestors (tmp @ ''/boot'')) \<union> {tmp @ ''/boot''}
               \<union> set (ancestors (tmp @ ''/boot/grub'')) \<union> {tmp @ ''/boot/grub''}"
    by (simp add: w4_def logged_def w2_def staged_def)
  have o4: "output a \<notin> dirs w4"
    unfolding d4 using o(1) ob oa by simp
  have o4': "dirname (output a) = [] \<or> dirname (output a) \<in> dirs w4"
    unfolding d4 using o(2) by blast
  have l4: "fsize_limit w4 = fsize_limit w"
    by (simp add: w4_def logged_def w2_def staged_def)
  have fb: "create_simple_iso w4 (kernel a) (bootloader a) (output a) =
      Returned (fits w (assemble 512 (2 * MiB) b k))
        (w4\<lparr>files := (files w4)(output a \<mapsto> written w (assemble 512 (2 * MiB) b k))\<rparr>)"
    using create_simple_iso_eval [OF b4 k4 o(5) o(4) open_wb_ok [OF oe o4 o4']]
    by (simp add: fits_cong [OF l4] written_cong [OF l4])
  show ?thesis
    unfolding iso_build_def by (simp add: s gr mk fb) (simp add: w4_def w2_def)
qed

lemma prepare_output_dir_ok:
  assumes u: "unused_name w tmp"
    and o: "output a \<notin> dirs w" "\<not> prefix tmp (output a)"
      "output a \<noteq> []" "last (output a) \<noteq> CHR ''/''"
    and d: "dirname (output a) = [] \<or> dirname (output a) \<in> dirs w \<or>
      (\<not> path_exists w (dirname (output a)) \<and>
       (\<forall>x \<in> set (ancestors (dirname (output a))). files w x = None))"
  shows "\<exists>D. prepare_output_dir w (output a) = Inr (w\<lparr>dirs := D\<rparr>) \<and>
           unused_name (w\<lparr>dirs := D\<rparr>) tmp \<and> output a \<notin> D \<and>
           (dirname (output a) = [] \<or> dirname (output a) \<in> D)"
proof (cases "dirname (output a) = [] \<or> dirname (output a) \<in> dirs w")
  case True
  then have "prepare_output_dir w (output a) = Inr (w\<lparr>dirs := dirs w\<rparr>)"
    by (auto simp add: prepare_output_dir_def path_exists_def)
  with u o(1) True show ?thesis by (intro exI [of _ "dirs w"]) simp
next
  case False
  define dn where "dn = dirname (output a)"
  define D where "D = dirs w \<union> set (ancestors dn) \<union> {dn}"
  from False d have n: "\<not> path_exists w dn" "\<forall>x \<in> set (ancestors dn). files w x = None"
    "dn \<noteq> []"
    by (simp_all add: dn_def)
  have p: "prepare_output_dir w (output a) = Inr (w\<lparr>dirs := D\<rparr>)"
    using n makedirs_fresh [OF n(1) n(2)]
    by (simp add: prepare_output_dir_def dn_def [symmetric] D_def)
  have pd: "prefix dn (output a)" unfolding dn_def by (rule dirname_prefix)
  have sh: "length dn < length (output a)" unfolding dn_def by (rule dirname_shorter [OF o(3,4)])
  have np: "\<And>q. prefix tmp q \<Longrightarrow> q \<noteq> dn \<and> q \<notin> set (ancestors dn)"
  proof
    fix q assume t: "prefix tmp q"
    show "q \<noteq> dn"
    proof
      assume "q = dn"
      with t pd have "prefix tmp (output a)" by (metis prefix_order.order_trans)
      with o(2) show False by simp
    qed
    show "q \<notin> set (ancestors dn)"
    proof
      assume "q \<in> set (ancestors dn)"
      then have "prefix q dn" by (rule ancestors_prefix)
      with t pd have "prefix tmp (output a)" by (metis prefix_order.order_trans)
      with o(2) show False by simp
    qed
  qed
  have u0: "unused_name (w\<lparr>dirs := D\<rparr>) tmp"
    using u np unfolding unused_name_def path_exists_def D_def by simp
  have "output a \<notin> set (ancestors dn)"
    using ancestors_shorter [of "output a" dn] sh by auto
  moreover have "output a \<noteq> dn" using sh by auto
  ultimately have od: "output a \<notin> D" using o(1) by (simp add: D_def)
  have "dirname (output a) \<in> D" by (simp add: D_def dn_def)
  with p u0 od show ?thesis by (intro exI [of _ D]) simp
qed

lemma iso_main_no_tools:
  assumes g: "\<And>fs. h [''which'', ''grub-mkrescue''] fs = Exited rg fs" "rg \<noteq> 0"
    and m: "\<And>fs. h [''which'', ''mkisofs''] fs = Exited rm fs" "rm \<noteq> 0"
    and i: "\<And>fs. h [''which'', ''genisoimage''] fs = Exited ri fs" "ri \<noteq> 0"
    and k: "files w (kernel a) = Some k" and b: "files w (bootloader a) = Some b"
    and u: "unused_name w tmp"
    and fit: "fits w k" "fits w b" "fits w (encode grub_cfg_text)"
    and o: "output a \<notin> dirs w"
      "dirname (output a) = [] \<or> dirname (output a) \<in> dirs w \<or>
       (\<not> path_exists w (dirname (output a)) \<and>
        (\<forall>x \<in> set (ancestors (dirname (output a))). files w x = None))"
      "\<not> prefix tmp (output a)" "output a \<noteq> kernel a" "output a \<noteq> bootloader a"
    and oe: "output a \<noteq> []" "last (output a) \<noteq> CHR ''/''"
  shows "\<exists>w'. create_iso_main h tmp a w =
           Returned (if fits w (assemble 512 (2 * MiB) b k) then 0 else 1) w' \<and>
         files w' (output a) = Some (written w (assemble 512 (2 * MiB) b k)) \<and>
         procs w' = procs w @ [([''which'', ''grub-mkrescue''], None),
           ([''which'', ''mkisofs''], None), ([''which'', ''genisoimage''], None)] \<and>
         (\<forall>p. below tmp p \<longrightarrow> files w' p = None) \<and>
         files w' (kernel a) = Some k \<and> files w' (bootloader a) = Some b"
proof -
  from prepare_output_dir_ok [OF u o(1) o(3) oe o(2)] obtain D where
    p: "prepare_output_dir w (output a) = Inr (w\<lparr>dirs := D\<rparr>)"
    and u0: "unused_name (w\<lparr>dirs := D\<rparr>) tmp"
    and o0: "output a \<notin> D" "dirname (output a) = [] \<or> dirname (output a) \<in> D"
    by blast
  define w0 where "w0 = w\<lparr>dirs := D\<rparr>"
  define w1 where "w1 = w0\<lparr>dirs := insert tmp (dirs w0)\<rparr>"
  define img where "img = assemble 512 (2 * MiB) b k"
  define w5 where "w5 = (logged (staged w1 tmp k b)
          [[''which'', ''grub-mkrescue''], [''which'', ''mkisofs''], [''which'', ''genisoimage'']]
          (files (staged w1 tmp k b)))
        \<lparr>files := (files (staged w1 tmp k b)) (output a \<mapsto> written w1 img)\<rparr>"
  have l1: "fsize_limit w1 = fsize_limit w" by (simp add: w1_def w0_def)
  note fc = fits_cong [OF l1] written_cong [OF l1]
  have e: "path_exists w (kernel a)" "path_exists w (bootloader a)"
    using k b by (simp_all add: path_exists_def)
  have t: "TemporaryDirectory w0 tmp = Inr w1" and f: "fresh_dir w1 tmp"
    unfolding w1_def w0_def by (rule unused_fresh [OF u0])+
  have anc: "\<forall>x \<in> set (ancestors tmp). x \<in> dirs w1"
    using u0 by (simp add: unused_name_def w1_def w0_def)
  have ot: "output a \<noteq> tmp" using o(3) by auto
  have k1: "files w1 (kernel a) = Some k" and b1: "files w1 (bootloader a) = Some b"
    using k b by (simp_all add: w1_def w0_def)
  have fit1: "fits w1 k" "fits w1 b" "fits w1 (encode grub_cfg_text)"
    using fit by (simp_all add: fc)
  have o1: "output a \<notin> dirs w1" "dirname (output a) = [] \<or> dirname (output a) \<in> dirs w1"
    using o0 ot by (auto simp add: w1_def w0_def)
  have ib: "iso_build h a tmp w1 = Returned (fits w1 img) w5"
    unfolding w5_def img_def
    by (rule iso_build_no_tools [OF g m i k1 b1 f anc fit1 o1 o(3) o(4) o(5) oe])
  have nb: "\<not> below tmp (output a)" using o(3) below_prefix by blast
  have nk: "\<not> below tmp (kernel a)" "\<not> below tmp (bootloader a)"
    using u k b below_prefix [of tmp] by (auto simp add: unused_name_def path_exists_def)
  have bel: "below tmp (tmp @ ''/boot/kernel.elf'')" "below tmp (tmp @ ''/boot/bootloader.bin'')"
    "below tmp (tmp @ ''/boot/grub/grub.cfg'')"
    by (simp_all add: below_def)
  have keep: "\<And>p. \<not> below tmp p \<Longrightarrow> p \<noteq> output a \<Longrightarrow> files w5 p = files w p"
    using bel by (auto simp add: w5_def staged_def w1_def w0_def)
  have r1: "files (rmtree w5 tmp) (output a) = Some (written w img)"
    using nb by (simp add: rmtree_def w5_def fc)
  have r2: "procs (rmtree w5 tmp) = procs w @ [([''which'', ''grub-mkrescue''], None),
           ([''which'', ''mkisofs''], None), ([''which'', ''genisoimage''], None)]"
    by (simp add: rmtree_def w5_def logged_def staged_def w1_def w0_def)
  have r3: "\<forall>p. below tmp p \<longrightarrow> files (rmtree w5 tmp) p = None"
    by (simp add: rmtree_def)
  have r4: "files (rmtree w5 tmp) (kernel a) = Some k" "files (rmtree w5 tmp) (bootloader a) = Some b"
    using nk keep [of "kernel a"] keep [of "bootloader a"] o(4,5) k b by (simp_all add: rmtree_def)
  have "create_iso_main h tmp a w = Returned (if fits w img then 0 else 1) (rmtree w5 tmp)"
    using p t ib by (simp add: create_iso_main_def e w0_def [symmetric] fc)
  then show ?thesis
    unfolding img_def [symmetric] using r1 r2 r3 r4 by (intro exI [of _ "rmtree w5 tmp"]) simp
qed

lemma unused_demo: "unused_name (demo_world\<lparr>fsize_limit := l\<rparr>) ''/tmp/iso''"
  unfolding unused_name_def
  by (auto simp add: demo_world_def ancestors_tmp_iso path_exists_def)

lemma demo_image:
  "assemble 512 (2 * MiB) [0xEB, 0xFE] [0x7F, 0x45, 0x4C, 0x46] =
     [0xEB, 0xFE] @ replicate 510 0 @ [0x7F, 0x45, 0x4C, 0x46] @ replicate 2096636 0"
  by (simp add: assemble_def Let_def roundUpToMultiple_def MiB_def)

lemma length_grub_cfg: "length (encode grub_cfg_text) = 172"
  by (simp add: encode_def grub_cfg_text_def join_lines_def)

lemma create_iso_structure_True:
  "create_iso_structure w kp bp t = Returned x w' \<Longrightarrow> x"
  by (auto simp add: create_iso_structure_def Let_def split: sum.splits prod.splits)

lemma iso_build_False:
  assumes "iso_build h a t w = Returned False w'"
  shows "\<exists>v1 v2 v3.
     create_iso_structure w (kernel a) (bootloader a) t = Returned True v1 \<and>
     create_iso_with_grub h t (output a) v1 = Returned False v2 \<and>
     create_iso_with_mkisofs h t (output a) (bootloader a) v2 = Returned False v3 \<and>
     create_simple_iso v3 (kernel a) (bootloader a) (output a) = Returned False w'"
proof (cases "create_iso_structure w (kernel a) (bootloader a) t")
  case (Returned x v1)
  then have x: "x" by (rule create_iso_structure_True)
  show ?thesis
  proof (cases "create_iso_with_grub h t (output a) v1")
    case g: (Returned gb v2)
    show ?thesis
    proof (cases "create_iso_with_mkisofs h t (output a) (bootloader a) v2")
      case m: (Returned mb v3)
      from assms Returned x g m show ?thesis
        by (cases gb; cases mb) (simp_all add: iso_build_def)
    next
      case (Raised e v3)
      with assms Returned x g show ?thesis by (cases gb) (simp_all add: iso_build_def)
    next
      case Hangs
      with assms Returned x g show ?thesis by (cases gb) (simp_all add: iso_build_def)
    qed
  next
    case (Raised e v2)
    with assms Returned x show ?thesis by (simp add: iso_build_def)
  next
    case Hangs
    with assms Returned x show ?thesis by (simp add: iso_build_def)
  qed
next
  case (Raised e v1)
  with assms show ?thesis by (simp add: iso_build_def)
next
  case Hangs
  with assms show ?thesis by (simp add: iso_build_def)
qed

lemma create_simple_iso_False:
  assumes "create_simple_iso v kp bp out = Returned False v'"
  shows "(\<forall>e. open_wb v out = Inl e \<longrightarrow> v' = v) \<and>
         (\<forall>v1. open_wb v out = Inr v1 \<longrightarrow> files v' out \<noteq> None)"
  using assms
  by (auto simp add: create_simple_iso_def file_close_def split: sum.splits)

lemma demo_written:
  "written (demo_world\<lparr>fsize_limit := Some 4096\<rparr>)
       (assemble 512 (2 * MiB) [0xEB, 0xFE] [0x7F, 0x45, 0x4C, 0x46]) =
     [0xEB, 0xFE] @ replicate 510 0 @ [0x7F, 0x45, 0x4C, 0x46] @ replicate 3580 0"
  by (simp add: written_def fits_def demo_image)

lemma demo_not_fits:
  "\<not> fits (demo_world\<lparr>fsize_limit := Some 4096\<rparr>)
       (assemble 512 (2 * MiB) [0xEB, 0xFE] [0x7F, 0x45, 0x4C, 0x46])"
  by (simp add: fits_def demo_image)

lemma create_arm64_image_eval:
  assumes b: "files w bootloader_path = Some bl" and k: "files w kernel_path = Some k"
    and o: "open_wb w output_path = Inr w0"
  shows "create_arm64_image w kernel_path bootloader_path output_path =
           Returned (fits w (assemble MiB (16 * MiB) bl k))
             (w\<lparr>files := (files w)(output_path \<mapsto> written w (assemble MiB (16 * MiB) bl k))\<rparr>)"
proof -
  define img where "img = assemble MiB (16 * MiB) bl k"
  define w1 where "w1 = w\<lparr>files := (files w)(output_path \<mapsto> [])\<rparr>"
  have op: "open_wb w output_path = Inr w1" using o open_wb_Inr [OF o] by (simp add: w1_def)
  have l: "fsize_limit w1 = fsize_limit w" by (simp add: w1_def)
  have rd: "open_rb w kernel_path = Inr k" "open_rb w bootloader_path = Inr bl"
    using b k by (simp_all add: open_rb_def)
  have wr: "arm64_write (fsize_limit w) bl k =
      then_do (f_write (fsize_limit w) [] img) (\<lambda>f.
        Inr \<lparr>image = f, kernel_offset = roundUpToMultiple (length bl) MiB,
             final_size = length f\<rparr>)"
    unfolding arm64_write_layout write_layout_assemble [OF MiB_pos] img_def ..
  show ?thesis
  proof (cases "fits w img")
    case True
    then show ?thesis
      unfolding img_def [symmetric]
      by (simp add: create_arm64_image_def rd op l wr f_write_fits then_do_def written_def
          file_close_def w1_def)
  next
    case False
    then show ?thesis
      unfolding img_def [symmetric]
      by (simp add: create_arm64_image_def rd op l wr f_write_not_fits then_do_def written_def
          file_close_def w1_def)
  qed
qed

text \<open>
  What the hypothesis on the kernel path of the next theorem keeps out: when the kernel
  path is the output path, the kernel that the fallback reads is what it has itself
  written to the output by then. With a buffer of one byte every write goes straight to
  the file, and the bootloader and its padding come back as the kernel.
\<close>

lemma fallback_reads_output_back:
  "create_simple_iso (demo_world\<lparr>buffer_size := 1\<rparr>) ''minios.iso'' ''boot.bin'' ''minios.iso'' =
     Returned True
       (demo_world\<lparr>buffer_size := 1, files := (files demo_world)(''minios.iso'' \<mapsto>
          ([0xEB, 0xFE] @ replicate 510 0) @ ([0xEB, 0xFE] @ replicate 510 0) @
            replicate 2096128 0)\<rparr>)"
proof -
  define z :: "byte list" where "z = replicate 510 0"
  have lz: "length z = 510" by (simp add: z_def)
  define w1 where
    "w1 = demo_world\<lparr>buffer_size := 1, files := (files demo_world)(''minios.iso'' \<mapsto> [])\<rparr>"
  have o: "open_wb (demo_world\<lparr>buffer_size := 1\<rparr>) ''minios.iso'' = Inr w1"
    by (simp add: open_wb_def demo_world_def dirname_def w1_def)
  have wr: "simple_iso_write w1 ''minios.iso'' ''minios.iso'' ''boot.bin'' =
      Inr (([0xEB, 0xFE] @ z) @ ([0xEB, 0xFE] @ z) @ replicate 2096128 0)"
    by (simp add: simple_iso_write_def w1_def demo_world_def open_rb_def Let_def f_write_def
        f_tell_def then_do_def flushed_after_def z_def [symmetric] lz)
  show ?thesis
    unfolding create_simple_iso_def o sum.case wr
    by (simp add: file_close_def w1_def z_def)
qed

section \<open>The fallback image has the same layout\<close>

text \<open>
  Claim C8. The fallback of \<^verbatim>\<open>create_iso.py\<close> and the raw image of
  \<^verbatim>\<open>create_image.py\<close> write the same layout (bootloader, zero padding up to the
  alignment unit, kernel, zero fill up to the minimum size), computed by the same
  arithmetic: the fallback with 512-byte alignment and a minimum of 2 MiB, the raw
  image with 1 MiB and 16 MiB. For every bootloader and kernel held by two input files
  other than the output file, and an output path that can be opened, both functions
  send exactly the bytes of \<open>assemble\<close> to the output file: all of them, returning
  \<open>True\<close>, when they fit under the file-size limit, and the part that fits, returning
  \<open>False\<close>, when they do not; no other file changes. (The fallback opens the output
  before it reads its inputs, so an input that is also the output is read back as what
  the fallback has written so far; such a call is not a build of that kernel.)
\<close>

theorem fallback_same_layout:
  assumes "files w bootloader_path = Some bl" and "files w kernel_path = Some k"
    and "output_path \<noteq> bootloader_path" and "output_path \<noteq> kernel_path"
    and "open_wb w output_path = Inr w1"
  shows "simple_iso_write w1 output_path kernel_path bootloader_path =
           f_write (fsize_limit w) [] (assemble 512 (2 * MiB) bl k) \<and>
         map_sum id image (arm64_write (fsize_limit w) bl k) =
           f_write (fsize_limit w) [] (assemble MiB (16 * MiB) bl k) \<and>
         create_simple_iso w kernel_path bootloader_path output_path =
           Returned (fits w (assemble 512 (2 * MiB) bl k))
             (w\<lparr>files := (files w)
                  (output_path \<mapsto> written w (assemble 512 (2 * MiB) bl k))\<rparr>) \<and>
         create_arm64_image w kernel_path bootloader_path output_path =
           Returned (fits w (assemble MiB (16 * MiB) bl k))
             (w\<lparr>files := (files w)
                  (output_path \<mapsto> written w (assemble MiB (16 * MiB) bl k))\<rparr>) \<and>
         assemble 512 (2 * MiB) bl k =
           bl @ replicate (roundUpToMultiple (length bl) 512 - length bl) 0 @ k @
             replicate (max (roundUpToMultiple (length bl) 512 + length k) (2 * MiB)
                          - (roundUpToMultiple (length bl) 512 + length k)) 0 \<and>
         assemble MiB (16 * MiB) bl k =
           bl @ replicate (roundUpToMultiple (length bl) MiB - length bl) 0 @ k @
             replicate (max (roundUpToMultiple (length bl) MiB + length k) (16 * MiB)
                          - (roundUpToMultiple (length bl) MiB + length k)) 0"
proof (intro conjI)
  have p: "0 < (512::nat)" by simp
  have w1: "w1 = w\<lparr>files := (files w)(output_path \<mapsto> [])\<rparr>"
    using assms(5) by (rule open_wb_Inr)
  have r: "files w1 bootloader_path = Some bl" "files w1 kernel_path = Some k"
    using assms(1-4) by (simp_all add: w1)
  have l: "fsize_limit w1 = fsize_limit w" by (simp add: w1)
  show "simple_iso_write w1 output_path kernel_path bootloader_path =
           f_write (fsize_limit w) [] (assemble 512 (2 * MiB) bl k)"
    unfolding simple_iso_write_layout [OF r assms(4) [symmetric]] write_layout_assemble [OF p] l
    by (cases "f_write (fsize_limit w) [] (assemble 512 (2 * MiB) bl k)")
      (simp_all add: then_do_def)
  show "map_sum id image (arm64_write (fsize_limit w) bl k) =
           f_write (fsize_limit w) [] (assemble MiB (16 * MiB) bl k)"
    unfolding arm64_write_layout write_layout_assemble [OF MiB_pos]
    by (cases "f_write (fsize_limit w) [] (assemble MiB (16 * MiB) bl k)")
      (simp_all add: then_do_def)
  show "create_simple_iso w kernel_path bootloader_path output_path =
           Returned (fits w (assemble 512 (2 * MiB) bl k))
             (w\<lparr>files := (files w)
                  (output_path \<mapsto> written w (assemble 512 (2 * MiB) bl k))\<rparr>)"
    using assms by (rule create_simple_iso_eval)
  show "create_arm64_image w kernel_path bootloader_path output_path =
           Returned (fits w (assemble MiB (16 * MiB) bl k))
             (w\<lparr>files := (files w)
                  (output_path \<mapsto> written w (assemble MiB (16 * MiB) bl k))\<rparr>)"
    using assms(1,2,5) by (rule create_arm64_image_eval)
  show "assemble 512 (2 * MiB) bl k =
           bl @ replicate (roundUpToMultiple (length bl) 512 - length bl) 0 @ k @
             replicate (max (roundUpToMultiple (length bl) 512 + length k) (2 * MiB)
                          - (roundUpToMultiple (length bl) 512 + length k)) 0"
    by (rule assemble_struct [OF p])
  show "assemble MiB (16 * MiB) bl k =
           bl @ replicate (roundUpToMultiple (length bl) MiB - length bl) 0 @ k @
             replicate (max (roundUpToMultiple (length bl) MiB + length k) (16 * MiB)
                          - (roundUpToMultiple (length bl) MiB + length k)) 0"
    by (rule assemble_struct [OF MiB_pos])
qed

theorem fallback_same_layout_witness:
  "create_simple_iso demo_world ''kernel.elf'' ''boot.bin'' ''minios.iso'' =
     Returned True
       (demo_world\<lparr>files := (files demo_world)(''minios.iso'' \<mapsto>
          [0xEB, 0xFE] @ replicate 510 0 @ [0x7F, 0x45, 0x4C, 0x46] @ replicate 2096636 0)\<rparr>) \<and>
   create_arm64_image demo_world ''kernel.elf'' ''boot.bin'' ''minios.iso'' =
     Returned True
       (demo_world\<lparr>files := (files demo_world)(''minios.iso'' \<mapsto>
          [0xEB, 0xFE] @ replicate 1048574 0 @ [0x7F, 0x45, 0x4C, 0x46] @
            replicate 15728636 0)\<rparr>)"
proof -
  define k :: "byte list" where "k = [0x7F, 0x45, 0x4C, 0x46]"
  define bl :: "byte list" where "bl = [0xEB, 0xFE]"
  define w1 where "w1 = demo_world\<lparr>files := (files demo_world)(''minios.iso'' \<mapsto> [])\<rparr>"
  have h: "files demo_world ''boot.bin'' = Some bl" "files demo_world ''kernel.elf'' = Some k"
    "''minios.iso'' \<noteq> ''boot.bin''" "''minios.iso'' \<noteq> ''kernel.elf''"
    by (simp_all add: demo_world_def k_def bl_def)
  have o: "open_wb demo_world ''minios.iso'' = Inr w1"
    by (simp add: open_wb_def demo_world_def dirname_def w1_def)
  have f: "\<And>d. fits demo_world d" "\<And>d. written demo_world d = d"
    by (simp_all add: fits_def written_def demo_world_def)
  have i1: "assemble 512 (2 * MiB) bl k = bl @ replicate 510 0 @ k @ replicate 2096636 0"
    by (simp add: assemble_def Let_def roundUpToMultiple_def MiB_def bl_def k_def)
  have i2: "assemble MiB (16 * MiB) bl k = bl @ replicate 1048574 0 @ k @ replicate 15728636 0"
    by (simp add: assemble_def Let_def roundUpToMultiple_def MiB_def bl_def k_def)
  note t = fallback_same_layout [OF h o]
  note c = t [THEN conjunct2, THEN conjunct2, THEN conjunct1, unfolded i1 f]
    t [THEN conjunct2, THEN conjunct2, THEN conjunct2, THEN conjunct1, unfolded i2 f]
  from c show ?thesis by (simp add: bl_def k_def f)
qed

section \<open>The chain of builders\<close>



section \<open>When every builder fails\<close>

text \<open>
  Claim C5, as stated: when every strategy fails, the fallback's own write included,
  no file exists at the output path afterwards. It fails on a host without packaging
  tools and with a file-size limit of 4096 bytes: the build ends with exit status 1
  and the output path holds the first 4096 bytes of the image.
\<close>

theorem exhausted_leaves_file_counterexample:
  "exit_status (create_iso_main bare_host ''/tmp/iso'' demo_args
       (demo_world\<lparr>fsize_limit := Some 4096\<rparr>)) = Some 1 \<and>
   file_after (create_iso_main bare_host ''/tmp/iso'' demo_args
       (demo_world\<lparr>fsize_limit := Some 4096\<rparr>)) ''minios.iso'' =
     Some ([0xEB, 0xFE] @ replicate 510 0 @ [0x7F, 0x45, 0x4C, 0x46] @ replicate 3580 0)"
proof -
  define w where "w = demo_world\<lparr>fsize_limit := Some 4096\<rparr>"
  have h: "\<And>n fs. bare_host [''which'', n] fs = Exited 1 fs" by (simp add: bare_host_def)
  have one: "(1::int) \<noteq> 0" by simp
  have k: "files w (kernel demo_args) = Some [0x7F, 0x45, 0x4C, 0x46]"
    and b: "files w (bootloader demo_args) = Some [0xEB, 0xFE]"
    by (simp_all add: w_def demo_world_def demo_args_def)
  have u: "unused_name w ''/tmp/iso''" unfolding w_def by (rule unused_demo)
  have fit: "fits w [0x7F, 0x45, 0x4C, 0x46]" "fits w [0xEB, 0xFE]" "fits w (encode grub_cfg_text)"
    by (simp_all add: fits_def w_def length_grub_cfg)
  have o: "output demo_args \<notin> dirs w"
    "dirname (output demo_args) = [] \<or> dirname (output demo_args) \<in> dirs w \<or>
       (\<not> path_exists w (dirname (output demo_args)) \<and>
        (\<forall>x \<in> set (ancestors (dirname (output demo_args))). files w x = None))"
    "\<not> prefix ''/tmp/iso'' (output demo_args)" "output demo_args \<noteq> kernel demo_args"
    "output demo_args \<noteq> bootloader demo_args"
    "output demo_args \<noteq> []" "last (output demo_args) \<noteq> CHR ''/''"
    by (simp_all add: demo_args_def w_def demo_world_def dirname_def)
  from iso_main_no_tools [where h = bare_host and rg = 1 and rm = 1 and ri = 1
      and w = w and a = demo_args and tmp = "''/tmp/iso''",
      OF h one h one h one k b u fit o]
  obtain w' where "create_iso_main bare_host ''/tmp/iso'' demo_args w =
      Returned (if fits w (assemble 512 (2 * MiB) [0xEB, 0xFE] [0x7F, 0x45, 0x4C, 0x46])
                then 0 else 1) w'"
    "files w' (output demo_args) =
       Some (written w (assemble 512 (2 * MiB) [0xEB, 0xFE] [0x7F, 0x45, 0x4C, 0x46]))"
    by blast
  then show ?thesis
    using demo_not_fits demo_written unfolding w_def [symmetric]
    by (simp add: demo_args_def)
qed

text \<open>
  Claim C5, amended. When every strategy fails (the staging tree was built, and
  \<^verbatim>\<open>create_iso_with_grub\<close>, \<^verbatim>\<open>create_iso_with_mkisofs\<close> and \<^verbatim>\<open>create_simple_iso\<close> each
  returned \<open>False\<close>), the build ends with exit status 1 and the staging directory is
  removed; nothing removes the output: every file outside the staging directory is as
  the last strategy left it. The fallback, when it fails, leaves the files untouched if
  it could not open the output path, and leaves a file there (empty or truncated) once
  it has opened it.
\<close>

theorem all_strategies_fail:
  "(iso_build h a tmp w1 = Returned False w2 \<longrightarrow>
      (\<exists>v1 v2 v3.
         create_iso_structure w1 (kernel a) (bootloader a) tmp = Returned True v1 \<and>
         create_iso_with_grub h tmp (output a) v1 = Returned False v2 \<and>
         create_iso_with_mkisofs h tmp (output a) (bootloader a) v2 = Returned False v3 \<and>
         create_simple_iso v3 (kernel a) (bootloader a) (output a) = Returned False w2)) \<and>
   (path_exists w (kernel a) \<and> path_exists w (bootloader a) \<and>
    prepare_output_dir w (output a) = Inr w0 \<and> TemporaryDirectory w0 tmp = Inr w1 \<and>
    iso_build h a tmp w1 = Returned False w2 \<longrightarrow>
      create_iso_main h tmp a w = Returned 1 (rmtree w2 tmp) \<and>
      (\<forall>p. \<not> below tmp p \<longrightarrow> files (rmtree w2 tmp) p = files w2 p)) \<and>
   (create_simple_iso v kp bp out = Returned False v' \<longrightarrow>
      (\<forall>e. open_wb v out = Inl e \<longrightarrow> v' = v) \<and>
      (\<forall>v1. open_wb v out = Inr v1 \<longrightarrow> files v' out \<noteq> None))"
proof (intro conjI impI)
  assume "iso_build h a tmp w1 = Returned False w2"
  then show "\<exists>v1 v2 v3.
         create_iso_structure w1 (kernel a) (bootloader a) tmp = Returned True v1 \<and>
         create_iso_with_grub h tmp (output a) v1 = Returned False v2 \<and>
         create_iso_with_mkisofs h tmp (output a) (bootloader a) v2 = Returned False v3 \<and>
         create_simple_iso v3 (kernel a) (bootloader a) (output a) = Returned False w2"
    by (rule iso_build_False)
next
  assume "path_exists w (kernel a) \<and> path_exists w (bootloader a) \<and>
    prepare_output_dir w (output a) = Inr w0 \<and> TemporaryDirectory w0 tmp = Inr w1 \<and>
    iso_build h a tmp w1 = Returned False w2"
  then show "create_iso_main h tmp a w = Returned 1 (rmtree w2 tmp)"
    by (simp add: create_iso_main_def)
next
  show "\<forall>p. \<not> below tmp p \<longrightarrow> files (rmtree w2 tmp) p = files w2 p"
    by (simp add: rmtree_def)
next
  assume "create_simple_iso v kp bp out = Returned False v'"
  then show "\<forall>e. open_wb v out = Inl e \<longrightarrow> v' = v"
    and "\<forall>v1. open_wb v out = Inr v1 \<longrightarrow> files v' out \<noteq> None"
    using create_simple_iso_False by blast+
qed

theorem all_strategies_fail_witness:
  "\<exists>w2. iso_build bare_host demo_args ''/tmp/iso''
            (demo_world\<lparr>dirs := {''/tmp/iso'', ''/tmp''}, fsize_limit := Some 4096\<rparr>) =
          Returned False w2 \<and>
        create_iso_main bare_host ''/tmp/iso'' demo_args (demo_world\<lparr>fsize_limit := Some 4096\<rparr>) =
          Returned 1 (rmtree w2 ''/tmp/iso'') \<and>
        files (rmtree w2 ''/tmp/iso'') ''minios.iso'' = files w2 ''minios.iso'' \<and>
        files w2 ''minios.iso'' =
          Some ([0xEB, 0xFE] @ replicate 510 0 @ [0x7F, 0x45, 0x4C, 0x46] @ replicate 3580 0)"
proof -
  define w where "w = demo_world\<lparr>fsize_limit := Some 4096\<rparr>"
  define w1 where "w1 = w\<lparr>dirs := insert ''/tmp/iso'' (dirs w)\<rparr>"
  define k :: "byte list" where "k = [0x7F, 0x45, 0x4C, 0x46]"
  define b :: "byte list" where "b = [0xEB, 0xFE]"
  define w2 where "w2 = (logged (staged w1 ''/tmp/iso'' k b)
          [[''which'', ''grub-mkrescue''], [''which'', ''mkisofs''], [''which'', ''genisoimage'']]
          (files (staged w1 ''/tmp/iso'' k b)))
        \<lparr>files := (files (staged w1 ''/tmp/iso'' k b))
            (output demo_args \<mapsto> written w1 (assemble 512 (2 * MiB) b k))\<rparr>"
  have w1': "w1 = demo_world\<lparr>dirs := {''/tmp/iso'', ''/tmp''}, fsize_limit := Some 4096\<rparr>"
    by (simp add: w1_def w_def demo_world_def)
  have h: "\<And>n fs. bare_host [''which'', n] fs = Exited 1 fs" by (simp add: bare_host_def)
  have one: "(1::int) \<noteq> 0" by simp
  have u: "unused_name w ''/tmp/iso''" unfolding w_def by (rule unused_demo)
  have t: "TemporaryDirectory w ''/tmp/iso'' = Inr w1" and f: "fresh_dir w1 ''/tmp/iso''"
    unfolding w1_def by (rule unused_fresh [OF u])+
  have kb: "files w1 (kernel demo_args) = Some k" "files w1 (bootloader demo_args) = Some b"
    by (simp_all add: w1_def w_def demo_world_def demo_args_def k_def b_def)
  have anc: "\<forall>x \<in> set (ancestors ''/tmp/iso''). x \<in> dirs w1"
    by (simp add: ancestors_tmp_iso w1_def w_def demo_world_def)
  have fit: "fits w1 k" "fits w1 b" "fits w1 (encode grub_cfg_text)"
    by (simp_all add: fits_def w1_def w_def length_grub_cfg k_def b_def)
  have o: "output demo_args \<notin> dirs w1"
    "dirname (output demo_args) = [] \<or> dirname (output demo_args) \<in> dirs w1"
    "\<not> prefix ''/tmp/iso'' (output demo_args)" "output demo_args \<noteq> kernel demo_args"
    "output demo_args \<noteq> bootloader demo_args"
    "output demo_args \<noteq> []" "last (output demo_args) \<noteq> CHR ''/''"
    by (simp_all add: demo_args_def w1_def w_def demo_world_def dirname_def)
  have l: "fsize_limit w1 = fsize_limit w" by (simp add: w1_def)
  have nf: "\<not> fits w1 (assemble 512 (2 * MiB) b k)"
    using demo_not_fits by (simp add: fits_cong [OF l] w_def k_def b_def)
  have wr: "written w1 (assemble 512 (2 * MiB) b k) =
      [0xEB, 0xFE] @ replicate 510 0 @ [0x7F, 0x45, 0x4C, 0x46] @ replicate 3580 0"
    using demo_written by (simp add: written_cong [OF l] w_def k_def b_def)
  have ib: "iso_build bare_host demo_args ''/tmp/iso'' w1 = Returned False w2"
    using iso_build_no_tools [where h = bare_host and rg = 1 and rm = 1 and ri = 1
        and w = w1 and a = demo_args and tmp = "''/tmp/iso''",
        OF h one h one h one kb f anc fit o] nf
    by (simp add: w2_def)
  have e: "path_exists w (kernel demo_args) \<and> path_exists w (bootloader demo_args) \<and>
    prepare_output_dir w (output demo_args) = Inr w \<and>
    TemporaryDirectory w ''/tmp/iso'' = Inr w1 \<and>
    iso_build bare_host demo_args ''/tmp/iso'' w1 = Returned False w2"
    using t ib
    by (simp add: path_exists_def prepare_output_dir_def w_def demo_world_def demo_args_def
        dirname_def)
  note inst = all_strategies_fail [of bare_host demo_args "''/tmp/iso''" w1 w2 w w]
  from inst [THEN conjunct2, THEN conjunct1, rule_format, OF e]
  have m: "create_iso_main bare_host ''/tmp/iso'' demo_args w = Returned 1 (rmtree w2 ''/tmp/iso'')"
    and r: "\<forall>p. \<not> below ''/tmp/iso'' p \<longrightarrow> files (rmtree w2 ''/tmp/iso'') p = files w2 p"
    by simp_all
  have nb: "\<not> below ''/tmp/iso'' ''minios.iso''" by (simp add: below_def)
  have f2: "files w2 ''minios.iso'' =
      Some ([0xEB, 0xFE] @ replicate 510 0 @ [0x7F, 0x45, 0x4C, 0x46] @ replicate 3580 0)"
    by (simp add: w2_def demo_args_def wr)
  show ?thesis
    using ib m r [rule_format, OF nb] f2 unfolding w1' w_def
    by (intro exI [of _ w2]) simp
qed

section \<open>External tools and timeouts\<close>

text \<open>
  Claim C9, as stated: every external tool is run with a timeout, and a timeout counts
  as a failure after which the chain goes on. It fails on a host where
  \<^verbatim>\<open>grub-mkrescue\<close> is installed and never exits: \<^verbatim>\<open>create_iso_with_grub\<close> does not
  return, and neither does \<^verbatim>\<open>main\<close>; no later strategy is tried.
\<close>

theorem no_timeout_counterexample:
  "hung_host [''which'', ''grub-mkrescue''] (files demo_world) = Exited 0 (files demo_world) \<and>
   hung_host [''grub-mkrescue'', ''-o'', ''minios.iso'', ''/tmp/iso''] (files demo_world) =
     Never_exits \<and>
   create_iso_with_grub hung_host ''/tmp/iso'' ''minios.iso'' demo_world = Hangs \<and>
   create_iso_main hung_host ''/tmp/iso'' demo_args demo_world = Hangs"
proof -
  define w1 where "w1 = demo_world\<lparr>dirs := insert ''/tmp/iso'' (dirs demo_world)\<rparr>"
  define k :: "byte list" where "k = [0x7F, 0x45, 0x4C, 0x46]"
  define b :: "byte list" where "b = [0xEB, 0xFE]"
  have u: "unused_name demo_world ''/tmp/iso''"
    using unused_demo [of None] by (simp add: demo_world_def)
  have t: "TemporaryDirectory demo_world ''/tmp/iso'' = Inr w1" and f: "fresh_dir w1 ''/tmp/iso''"
    unfolding w1_def by (rule unused_fresh [OF u])+
  have kb: "files w1 (kernel demo_args) = Some k" "files w1 (bootloader demo_args) = Some b"
    by (simp_all add: w1_def demo_world_def demo_args_def k_def b_def)
  have fit: "\<And>d. fits w1 d" by (simp add: fits_def w1_def demo_world_def)
  have s: "create_iso_structure w1 (kernel demo_args) (bootloader demo_args) ''/tmp/iso'' =
      Returned True (staged w1 ''/tmp/iso'' k b)"
    by (rule create_iso_structure_fresh [OF f kb fit fit fit])
  have g: "create_iso_with_grub hung_host ''/tmp/iso'' (output demo_args)
      (staged w1 ''/tmp/iso'' k b) = Hangs"
    by (simp add: create_iso_with_grub_def subprocess_run_def hung_host_def Let_def demo_args_def)
  have ib: "iso_build hung_host demo_args ''/tmp/iso'' w1 = Hangs"
    by (simp add: iso_build_def s g)
  have e: "path_exists demo_world (kernel demo_args)" "path_exists demo_world (bootloader demo_args)"
    "prepare_output_dir demo_world (output demo_args) = Inr demo_world"
    by (simp_all add: path_exists_def prepare_output_dir_def demo_world_def demo_args_def
        dirname_def)
  have m: "create_iso_main hung_host ''/tmp/iso'' demo_args demo_world = Hangs"
    by (simp add: create_iso_main_def e t ib)
  have "create_iso_with_grub hung_host ''/tmp/iso'' ''minios.iso'' demo_world = Hangs"
    by (simp add: create_iso_with_grub_def subprocess_run_def hung_host_def Let_def)
  with m show ?thesis by (simp add: hung_host_def)
qed

text \<open>
  Claim C9, amended. Every external-tool invocation of the two strategies, the
  \<^verbatim>\<open>which\<close> probes included, is a blocking call without a timeout, so a tool that never
  exits blocks the strategy, and the build with it, for ever. In
  \<^verbatim>\<open>create_iso_with_grub\<close> a non-zero exit status of \<^verbatim>\<open>grub-mkrescue\<close>, or a failure to
  start it, makes the strategy report failure. In \<^verbatim>\<open>create_iso_with_mkisofs\<close>, which
  tries \<^verbatim>\<open>mkisofs\<close> and then \<^verbatim>\<open>genisoimage\<close>, a tool that cannot be started makes the
  strategy report failure at once; a non-zero exit status makes it go on to the next
  name, so that a non-zero exit status of \<^verbatim>\<open>mkisofs\<close> is not yet a failure of the
  strategy, and the strategy reports failure when the names are used up. A probe that
  finds no tool reports failure in \<^verbatim>\<open>create_iso_with_grub\<close> and goes on to the next name
  in \<^verbatim>\<open>create_iso_with_mkisofs\<close>. When a strategy reports failure the chain goes on to
  the next strategy; when a strategy never returns, neither does \<^verbatim>\<open>main\<close>.
\<close>

theorem tools_block_without_timeout:
  "(create_iso_with_grub h t out w = Returned b w' \<longrightarrow> untimed w w') \<and>
   (create_iso_with_mkisofs h t out bp w = Returned b w' \<longrightarrow> untimed w w') \<and>
   (h [''which'', ''grub-mkrescue''] (files w) = Exited 0 fs \<longrightarrow>
      (h [''grub-mkrescue'', ''-o'', out, t] fs = Never_exits \<longrightarrow>
         create_iso_with_grub h t out w = Hangs) \<and>
      (h [''grub-mkrescue'', ''-o'', out, t] fs = Exited rc fs' \<and> rc \<noteq> 0 \<longrightarrow>
         create_iso_with_grub h t out w =
           Returned False
             (logged w [[''which'', ''grub-mkrescue''], [''grub-mkrescue'', ''-o'', out, t]] fs')) \<and>
      (h [''grub-mkrescue'', ''-o'', out, t] fs = Launch_error \<longrightarrow>
         create_iso_with_grub h t out w =
           Returned False
             (logged w [[''which'', ''grub-mkrescue''], [''grub-mkrescue'', ''-o'', out, t]] fs))) \<and>
   (h [''which'', ''mkisofs''] (files w) = Exited 0 fs \<and>
    h (mkisofs_cmd ''mkisofs'' out t) fs = Never_exits \<longrightarrow>
      create_iso_with_mkisofs h t out bp w = Hangs) \<and>
   (create_iso_structure w (kernel a) (bootloader a) t = Returned True w1 \<longrightarrow>
      (create_iso_with_grub h t (output a) w1 = Hangs \<longrightarrow> iso_build h a t w = Hangs) \<and>
      (create_iso_with_grub h t (output a) w1 = Returned False w2 \<longrightarrow>
         iso_build h a t w =
           (case create_iso_with_mkisofs h t (output a) (bootloader a) w2 of
              Hangs \<Rightarrow> Hangs
            | Raised e w3 \<Rightarrow> Raised e w3
            | Returned m w3 \<Rightarrow>
                if m then Returned True w3
                else create_simple_iso w3 (kernel a) (bootloader a) (output a)))) \<and>
   (h [''which'', ''grub-mkrescue''] (files w) = Never_exits \<longrightarrow>
      create_iso_with_grub h t out w = Hangs) \<and>
   create_iso_with_mkisofs h t out bp w =
     mkisofs_loop h t out [''mkisofs'', ''genisoimage''] w \<and>
   mkisofs_loop h t out [] v = Returned False v \<and>
   (h [''which'', n] (files v) = Never_exits \<longrightarrow>
      mkisofs_loop h t out (n # rest) v = Hangs) \<and>
   (h [''which'', n] (files v) = Exited 0 gs \<longrightarrow>
      (h (mkisofs_cmd n out t) gs = Never_exits \<longrightarrow>
         mkisofs_loop h t out (n # rest) v = Hangs) \<and>
      (h (mkisofs_cmd n out t) gs = Launch_error \<longrightarrow>
         mkisofs_loop h t out (n # rest) v =
           Returned False (logged v [[''which'', n], mkisofs_cmd n out t] gs)) \<and>
      (h (mkisofs_cmd n out t) gs = Exited rc gs' \<and> rc \<noteq> 0 \<longrightarrow>
         mkisofs_loop h t out (n # rest) v =
           mkisofs_loop h t out rest (logged v [[''which'', n], mkisofs_cmd n out t] gs'))) \<and>
   (h [''which'', ''mkisofs''] (files w) = Exited 0 fa \<and>
    h (mkisofs_cmd ''mkisofs'' out t) fa = Exited ra fb \<and> ra \<noteq> 0 \<and>
    h [''which'', ''genisoimage''] fb = Exited 0 fc \<longrightarrow>
      (h (mkisofs_cmd ''genisoimage'' out t) fc = Never_exits \<longrightarrow>
         create_iso_with_mkisofs h t out bp w = Hangs) \<and>
      (h (mkisofs_cmd ''genisoimage'' out t) fc = Launch_error \<longrightarrow>
         create_iso_with_mkisofs h t out bp w =
           Returned False
             (logged w [[''which'', ''mkisofs''], mkisofs_cmd ''mkisofs'' out t,
                        [''which'', ''genisoimage''], mkisofs_cmd ''genisoimage'' out t] fc)) \<and>
      (h (mkisofs_cmd ''genisoimage'' out t) fc = Exited rb fd \<and> rb \<noteq> 0 \<longrightarrow>
         create_iso_with_mkisofs h t out bp w =
           Returned False
             (logged w [[''which'', ''mkisofs''], mkisofs_cmd ''mkisofs'' out t,
                        [''which'', ''genisoimage''], mkisofs_cmd ''genisoimage'' out t] fd))) \<and>
   (h [''which'', ''grub-mkrescue''] (files w) = Exited rc fs \<and> rc \<noteq> 0 \<longrightarrow>
      create_iso_with_grub h t out w =
        Returned False (logged w [[''which'', ''grub-mkrescue'']] fs)) \<and>
   (h [''which'', ''grub-mkrescue''] (files w) = Launch_error \<longrightarrow>
      create_iso_with_grub h t out w =
        Returned False (logged w [[''which'', ''grub-mkrescue'']] (files w))) \<and>
   (h [''which'', n] (files v) = Exited rc gs \<and> rc \<noteq> 0 \<longrightarrow>
      mkisofs_loop h t out (n # rest) v =
        mkisofs_loop h t out rest (logged v [[''which'', n]] gs)) \<and>
   (h [''which'', n] (files v) = Launch_error \<longrightarrow>
      mkisofs_loop h t out (n # rest) v =
        Returned False (logged v [[''which'', n]] (files v))) \<and>
   (path_exists w (kernel a) \<and> path_exists w (bootloader a) \<and>
    prepare_output_dir w (output a) = Inr wo \<and> TemporaryDirectory wo t = Inr wt \<and>
    iso_build h a t wt = Hangs \<longrightarrow>
      create_iso_main h t a w = Hangs)"
proof (intro conjI impI)
  assume "create_iso_with_grub h t out w = Returned b w'"
  then show "untimed w w'" by (rule grub_untimed)
next
  assume "create_iso_with_mkisofs h t out bp w = Returned b w'"
  then show "untimed w w'"
    unfolding create_iso_with_mkisofs_def by (rule mkisofs_loop_untimed)
next
  assume a: "h [''which'', ''grub-mkrescue''] (files w) = Exited 0 fs"
    and "h [''grub-mkrescue'', ''-o'', out, t] fs = Never_exits"
  then show "create_iso_with_grub h t out w = Hangs"
    by (simp add: create_iso_with_grub_def subprocess_run_Exited subprocess_run_Never Let_def)
next
  assume a: "h [''which'', ''grub-mkrescue''] (files w) = Exited 0 fs"
    and "h [''grub-mkrescue'', ''-o'', out, t] fs = Exited rc fs' \<and> rc \<noteq> 0"
  then show "create_iso_with_grub h t out w =
      Returned False
        (logged w [[''which'', ''grub-mkrescue''], [''grub-mkrescue'', ''-o'', out, t]] fs')"
    by (simp add: create_iso_with_grub_def subprocess_run_Exited Let_def)
next
  assume a: "h [''which'', ''grub-mkrescue''] (files w) = Exited 0 fs"
    and "h [''grub-mkrescue'', ''-o'', out, t] fs = Launch_error"
  then show "create_iso_with_grub h t out w =
      Returned False
        (logged w [[''which'', ''grub-mkrescue''], [''grub-mkrescue'', ''-o'', out, t]] fs)"
    by (simp add: create_iso_with_grub_def subprocess_run_Exited subprocess_run_Launch Let_def)
next
  assume "h [''which'', ''mkisofs''] (files w) = Exited 0 fs \<and>
    h (mkisofs_cmd ''mkisofs'' out t) fs = Never_exits"
  then show "create_iso_with_mkisofs h t out bp w = Hangs"
    by (simp add: create_iso_with_mkisofs_def subprocess_run_Exited subprocess_run_Never Let_def)
next
  assume "create_iso_structure w (kernel a) (bootloader a) t = Returned True w1"
    and "create_iso_with_grub h t (output a) w1 = Hangs"
  then show "iso_build h a t w = Hangs" by (simp add: iso_build_def)
next
  assume "create_iso_structure w (kernel a) (bootloader a) t = Returned True w1"
    and "create_iso_with_grub h t (output a) w1 = Returned False w2"
  then show "iso_build h a t w =
           (case create_iso_with_mkisofs h t (output a) (bootloader a) w2 of
              Hangs \<Rightarrow> Hangs
            | Raised e w3 \<Rightarrow> Raised e w3
            | Returned m w3 \<Rightarrow>
                if m then Returned True w3
                else create_simple_iso w3 (kernel a) (bootloader a) (output a))"
    by (simp add: iso_build_def)
next
  assume "h [''which'', ''grub-mkrescue''] (files w) = Never_exits"
  then show "create_iso_with_grub h t out w = Hangs"
    by (simp add: create_iso_with_grub_def subprocess_run_Never)
next
  show "create_iso_with_mkisofs h t out bp w =
      mkisofs_loop h t out [''mkisofs'', ''genisoimage''] w"
    by (simp add: create_iso_with_mkisofs_def)
next
  show "mkisofs_loop h t out [] v = Returned False v" by simp
next
  assume "h [''which'', n] (files v) = Never_exits"
  then show "mkisofs_loop h t out (n # rest) v = Hangs"
    by (simp add: subprocess_run_Never)
next
  assume "h [''which'', n] (files v) = Exited 0 gs"
    and "h (mkisofs_cmd n out t) gs = Never_exits"
  then show "mkisofs_loop h t out (n # rest) v = Hangs"
    by (simp add: subprocess_run_Exited subprocess_run_Never Let_def)
next
  assume "h [''which'', n] (files v) = Exited 0 gs"
    and "h (mkisofs_cmd n out t) gs = Launch_error"
  then show "mkisofs_loop h t out (n # rest) v =
      Returned False (logged v [[''which'', n], mkisofs_cmd n out t] gs)"
    by (simp add: subprocess_run_Exited subprocess_run_Launch Let_def)
next
  assume "h [''which'', n] (files v) = Exited 0 gs"
    and "h (mkisofs_cmd n out t) gs = Exited rc gs' \<and> rc \<noteq> 0"
  then show "mkisofs_loop h t out (n # rest) v =
      mkisofs_loop h t out rest (logged v [[''which'', n], mkisofs_cmd n out t] gs')"
    by (simp add: subprocess_run_Exited Let_def)
next
  assume "h [''which'', ''mkisofs''] (files w) = Exited 0 fa \<and>
    h (mkisofs_cmd ''mkisofs'' out t) fa = Exited ra fb \<and> ra \<noteq> 0 \<and>
    h [''which'', ''genisoimage''] fb = Exited 0 fc"
    and "h (mkisofs_cmd ''genisoimage'' out t) fc = Never_exits"
  then show "create_iso_with_mkisofs h t out bp w = Hangs"
    by (simp add: create_iso_with_mkisofs_def subprocess_run_Exited subprocess_run_Never Let_def)
next
  assume "h [''which'', ''mkisofs''] (files w) = Exited 0 fa \<and>
    h (mkisofs_cmd ''mkisofs'' out t) fa = Exited ra fb \<and> ra \<noteq> 0 \<and>
    h [''which'', ''genisoimage''] fb = Exited 0 fc"
    and "h (mkisofs_cmd ''genisoimage'' out t) fc = Launch_error"
  then show "create_iso_with_mkisofs h t out bp w =
      Returned False
        (logged w [[''which'', ''mkisofs''], mkisofs_cmd ''mkisofs'' out t,
                   [''which'', ''genisoimage''], mkisofs_cmd ''genisoimage'' out t] fc)"
    by (simp add: create_iso_with_mkisofs_def subprocess_run_Exited subprocess_run_Launch Let_def)
next
  assume "h [''which'', ''mkisofs''] (files w) = Exited 0 fa \<and>
    h (mkisofs_cmd ''mkisofs'' out t) fa = Exited ra fb \<and> ra \<noteq> 0 \<and>
    h [''which'', ''genisoimage''] fb = Exited 0 fc"
    and "h (mkisofs_cmd ''genisoimage'' out t) fc = Exited rb fd \<and> rb \<noteq> 0"
  then show "create_iso_with_mkisofs h t out bp w =
      Returned False
        (logged w [[''which'', ''mkisofs''], mkisofs_cmd ''mkisofs'' out t,
                   [''which'', ''genisoimage''], mkisofs_cmd ''genisoimage'' out t] fd)"
    by (simp add: create_iso_with_mkisofs_def subprocess_run_Exited Let_def)
next
  assume "h [''which'', ''grub-mkrescue''] (files w) = Exited rc fs \<and> rc \<noteq> 0"
  then show "create_iso_with_grub h t out w =
      Returned False (logged w [[''which'', ''grub-mkrescue'']] fs)"
    by (simp add: create_iso_with_grub_def subprocess_run_Exited)
next
  assume "h [''which'', ''grub-mkrescue''] (files w) = Launch_error"
  then show "create_iso_with_grub h t out w =
      Returned False (logged w [[''which'', ''grub-mkrescue'']] (files w))"
    by (simp add: create_iso_with_grub_def subprocess_run_Launch)
next
  assume "h [''which'', n] (files v) = Exited rc gs \<and> rc \<noteq> 0"
  then show "mkisofs_loop h t out (n # rest) v =
      mkisofs_loop h t out rest (logged v [[''which'', n]] gs)"
    by (simp add: subprocess_run_Exited)
next
  assume "h [''which'', n] (files v) = Launch_error"
  then show "mkisofs_loop h t out (n # rest) v =
      Returned False (logged v [[''which'', n]] (files v))"
    by (simp add: subprocess_run_Launch)
next
  assume "path_exists w (kernel a) \<and> path_exists w (bootloader a) \<and>
    prepare_output_dir w (output a) = Inr wo \<and> TemporaryDirectory wo t = Inr wt \<and>
    iso_build h a t wt = Hangs"
  then show "create_iso_main h t a w = Hangs"
    by (simp add: create_iso_main_def)
qed

theorem tools_block_without_timeout_witness:
  "create_iso_with_grub hung_host ''/tmp/iso'' ''minios.iso'' demo_world = Hangs \<and>
   untimed demo_world
     (logged demo_world [[''which'', ''grub-mkrescue'']] (files demo_world)) \<and>
   create_iso_with_grub failing_host ''/tmp/iso'' ''minios.iso'' demo_world =
     Returned False
       (logged demo_world [[''which'', ''grub-mkrescue''],
          [''grub-mkrescue'', ''-o'', ''minios.iso'', ''/tmp/iso'']] (files demo_world)) \<and>
   create_iso_with_mkisofs failing_host ''/tmp/iso'' ''minios.iso'' ''boot.bin'' demo_world =
     Returned False
       (logged demo_world [[''which'', ''mkisofs''],
          mkisofs_cmd ''mkisofs'' ''minios.iso'' ''/tmp/iso'',
          [''which'', ''genisoimage''],
          mkisofs_cmd ''genisoimage'' ''minios.iso'' ''/tmp/iso''] (files demo_world))"
proof (intro conjI)
  note t = tools_block_without_timeout [where h = hung_host and t = "''/tmp/iso''"
      and out = "''minios.iso''" and w = demo_world and fs = "files demo_world"]
  have a: "hung_host [''which'', ''grub-mkrescue''] (files demo_world) = Exited 0 (files demo_world)"
    and b: "hung_host [''grub-mkrescue'', ''-o'', ''minios.iso'', ''/tmp/iso''] (files demo_world) =
      Never_exits"
    by (simp_all add: hung_host_def)
  from t [THEN conjunct2, THEN conjunct2, THEN conjunct1, rule_format, OF a, THEN conjunct1,
      rule_format, OF b]
  show "create_iso_with_grub hung_host ''/tmp/iso'' ''minios.iso'' demo_world = Hangs" .
next
  have g: "create_iso_with_grub retry_host ''/tmp/iso'' ''minios.iso'' demo_world =
      Returned False (logged demo_world [[''which'', ''grub-mkrescue'']] (files demo_world))"
    by (simp add: create_iso_with_grub_def subprocess_run_def retry_host_def logged_def Let_def)
  from tools_block_without_timeout [THEN conjunct1, rule_format, OF g]
  show "untimed demo_world
     (logged demo_world [[''which'', ''grub-mkrescue'']] (files demo_world))" .
next
  note t = tools_block_without_timeout [where h = failing_host and t = "''/tmp/iso''"
      and out = "''minios.iso''" and w = demo_world and fs = "files demo_world"
      and rc = 1 and fs' = "files demo_world"]
  have a: "failing_host [''which'', ''grub-mkrescue''] (files demo_world) =
      Exited 0 (files demo_world)"
    and b: "failing_host [''grub-mkrescue'', ''-o'', ''minios.iso'', ''/tmp/iso'']
        (files demo_world) = Exited 1 (files demo_world) \<and> (1 :: int) \<noteq> 0"
    by (simp_all add: failing_host_def)
  from t [THEN conjunct2, THEN conjunct2, THEN conjunct1, rule_format, OF a, THEN conjunct2,
      THEN conjunct1, rule_format, OF b]
  show "create_iso_with_grub failing_host ''/tmp/iso'' ''minios.iso'' demo_world =
     Returned False
       (logged demo_world [[''which'', ''grub-mkrescue''],
          [''grub-mkrescue'', ''-o'', ''minios.iso'', ''/tmp/iso'']] (files demo_world))" .
next
  note t = tools_block_without_timeout [where h = failing_host and t = "''/tmp/iso''"
      and out = "''minios.iso''" and w = demo_world and bp = "''boot.bin''"
      and fa = "files demo_world" and fb = "files demo_world" and fc = "files demo_world"
      and fd = "files demo_world" and ra = 1 and rb = 1]
  have a: "failing_host [''which'', ''mkisofs''] (files demo_world) = Exited 0 (files demo_world) \<and>
    failing_host (mkisofs_cmd ''mkisofs'' ''minios.iso'' ''/tmp/iso'') (files demo_world) =
      Exited 1 (files demo_world) \<and> (1 :: int) \<noteq> 0 \<and>
    failing_host [''which'', ''genisoimage''] (files demo_world) = Exited 0 (files demo_world)"
    and b: "failing_host (mkisofs_cmd ''genisoimage'' ''minios.iso'' ''/tmp/iso'')
        (files demo_world) = Exited 1 (files demo_world) \<and> (1 :: int) \<noteq> 0"
    by (simp_all add: failing_host_def mkisofs_cmd_def)
  note last = t [THEN conjunct2, THEN conjunct2, THEN conjunct2, THEN conjunct2, THEN conjunct2,
      THEN conjunct2, THEN conjunct2, THEN conjunct2, THEN conjunct2, THEN conjunct2,
      THEN conjunct1]
  from last [rule_format, OF a, THEN conjunct2, THEN conjunct2, rule_format, OF b]
  show "create_iso_with_mkisofs failing_host ''/tmp/iso'' ''minios.iso'' ''boot.bin'' demo_world =
     Returned False
       (logged demo_world [[''which'', ''mkisofs''],
          mkisofs_cmd ''mkisofs'' ''minios.iso'' ''/tmp/iso'',
          [''which'', ''genisoimage''],
          mkisofs_cmd ''genisoimage'' ''minios.iso'' ''/tmp/iso''] (files demo_world))" .
qed

end
